theory Spec2Isabelle
  imports Main
begin

section \<open>Banner generator: a shallow embedding of \<open>banner_generator.py\<close>\<close>

text \<open>
  The class \<open>BannerGenerator\<close> sequences calls to three hosted models and to the file
  system. The embedding keeps the control flow of every method and makes the outside
  world explicit:
  \<^item> a Python \<open>str\<close> is a list of Unicode code points (\<open>nat\<close>);
  \<^item> the object is a record \<open>session\<close>; the outside world is a record \<open>world\<close> holding
    the files, the sequence of external calls made so far and the console output;
  \<^item> everything the code cannot decide by itself (what a hosted model answers, whether an
    external call fails, the Unicode tables of \<open>str.isalnum\<close> and \<open>str.isspace\<close> beyond
    ASCII, the image formats of PIL other than JPEG) is a field of the parameter \<open>env\<close>.
    An answer may depend on the whole sequence of earlier calls;
  \<^item> an exception is a value \<open>Inl e\<close>; a method that returns gives \<open>Inr\<close> of its result,
    the updated session and the updated world.
\<close>

subsection \<open>Strings\<close>

type_synonym pystr = "nat list"

definition str :: "string \<Rightarrow> pystr" where
  "str s = map of_char s"

text \<open>Line feed, apostrophe and the rupee sign of the prompt templates.\<close>

definition nl :: pystr where
  "nl = [10]"

definition apostrophe :: pystr where
  "apostrophe = [39]"

definition rupee :: pystr where
  "rupee = [8377]"

text \<open>The indentation of the continuation lines of the triple-quoted templates.\<close>

definition ind :: pystr where
  "ind = nl @ str ''        ''"

subsection \<open>Errors\<close>

datatype error =
    KeyError pystr
  | AttributeError
  | TypeError
  | IndexError
  | FileNotFoundError pystr
  | ValueError pystr
  | ExternalError nat

definition ebind :: "error + 'a \<Rightarrow> ('a \<Rightarrow> error + 'b) \<Rightarrow> error + 'b" where
  "ebind m f = (case m of Inl e \<Rightarrow> Inl e | Inr x \<Rightarrow> f x)"

subsection \<open>Data model\<close>

text \<open>
  An image is its colour mode and an identifier of its content. \<open>convert\<close> changes the
  mode; the content identifier stands for the picture.
\<close>

datatype image = Image (img_mode: pystr) (img_content: nat)

datatype aspect = R1_1 | R9_16 | R16_9 | R4_3 | R3_4

fun aspect_str :: "aspect \<Rightarrow> pystr" where
  "aspect_str R1_1 = str ''1:1''"
| "aspect_str R9_16 = str ''9:16''"
| "aspect_str R16_9 = str ''16:9''"
| "aspect_str R4_3 = str ''4:3''"
| "aspect_str R3_4 = str ''3:4''"

datatype handle = GenerativeModel pystr | ImageGenerationModel pystr

datatype part = PText pystr | PImage image

text \<open>
  One event per external call that returned and per change of the file system, with the
  arguments of the call and its answer. \<open>EvGenerateImages\<close> has \<open>None\<close> where the call
  passes no \<open>aspect_ratio\<close> argument.
\<close>

datatype event =
    EvVertexInit pystr pystr
  | EvGenaiConfigure pystr
  | EvGenerativeModel pystr
  | EvFromPretrained pystr
  | EvGenerateContent pystr "part list" pystr
  | EvGenerateImages pystr pystr "pystr option" "image list"
  | EvEditImage pystr image pystr pystr pystr "image list"
  | EvRemove pystr
  | EvSave pystr image

record session =
  CONFIGS :: "(pystr \<times> pystr) list"
  topic :: pystr
  images :: "pystr list option"
  aspect_ratio :: "aspect option"
  text_model :: pystr
  image_model :: pystr
  edit_model :: pystr
  pm :: "handle option"
  im :: "handle option"
  em :: "handle option"
  text_v0 :: "pystr option"
  text_v1 :: "pystr option"
  text_v2 :: "pystr option"
  text_v3 :: "pystr option"
  img_response_v1 :: "image list option"
  img_response_v2 :: "image list option"
  img_response_v3 :: "image list option"
  launch_state :: bool

record world =
  files :: "pystr \<rightharpoonup> image"
  trace :: "event list"
  console :: "pystr list"

record env =
  uni_isalnum :: "nat \<Rightarrow> bool"
  uni_isspace :: "nat \<Rightarrow> bool"
  vertexai_init :: "event list \<Rightarrow> pystr \<Rightarrow> pystr \<Rightarrow> error option"
  genai_configure :: "event list \<Rightarrow> pystr \<Rightarrow> error option"
  new_generative_model :: "event list \<Rightarrow> pystr \<Rightarrow> error option"
  from_pretrained :: "event list \<Rightarrow> pystr \<Rightarrow> error option"
  text_service :: "event list \<Rightarrow> pystr \<Rightarrow> part list \<Rightarrow> error + pystr"
  image_service :: "event list \<Rightarrow> pystr \<Rightarrow> pystr \<Rightarrow> pystr option \<Rightarrow> error + image list"
  edit_service ::
    "event list \<Rightarrow> pystr \<Rightarrow> image \<Rightarrow> pystr \<Rightarrow> pystr \<Rightarrow> pystr \<Rightarrow> error + image list"
  fs_fault :: "event list \<Rightarrow> event \<Rightarrow> error option"
  pil_other :: "pystr \<Rightarrow> error option"

subsection \<open>Python built-ins used by the code\<close>

text \<open>\<open>str.isalnum\<close> and \<open>str.isspace\<close> of one character: ASCII by the table, the rest by \<open>env\<close>.\<close>

definition isalnum :: "env \<Rightarrow> nat \<Rightarrow> bool" where
  "isalnum env c =
     (if c < 128 then (48 \<le> c \<and> c \<le> 57) \<or> (65 \<le> c \<and> c \<le> 90) \<or> (97 \<le> c \<and> c \<le> 122)
      else uni_isalnum env c)"

definition isspace :: "env \<Rightarrow> nat \<Rightarrow> bool" where
  "isspace env c =
     (if c < 128 then (9 \<le> c \<and> c \<le> 13) \<or> (28 \<le> c \<and> c \<le> 32)
      else uni_isspace env c)"

text \<open>\<open>xs[i:j]\<close> with Python's treatment of negative and out-of-range bounds.\<close>

definition py_slice :: "int \<Rightarrow> int \<Rightarrow> 'a list \<Rightarrow> 'a list" where
  "py_slice i j xs =
     (let n = int (length xs);
          a = (if i < 0 then max 0 (i + n) else min i n);
          b = (if j < 0 then max 0 (j + n) else min j n)
      in if a < b then take (nat (b - a)) (drop (nat a) xs) else [])"

text \<open>\<open>s.strip()\<close>: whitespace is dropped at both ends.\<close>

definition strip :: "env \<Rightarrow> pystr \<Rightarrow> pystr" where
  "strip env s = rev (dropWhile (isspace env) (rev (dropWhile (isspace env) s)))"

text \<open>\<open>s.replace(a, b)\<close> for one-character \<open>a\<close> and \<open>b\<close>, as the code calls it.\<close>

definition replace_char :: "nat \<Rightarrow> nat \<Rightarrow> pystr \<Rightarrow> pystr" where
  "replace_char a b s = map (\<lambda>c. if c = a then b else c) s"

text \<open>\<open>os.path.join(a, b)\<close> on POSIX: an absolute \<open>b\<close> discards \<open>a\<close>.\<close>

definition path_join :: "pystr \<Rightarrow> pystr \<Rightarrow> pystr" where
  "path_join a b =
     (if b \<noteq> [] \<and> hd b = 47 then b
      else if a = [] \<or> last a = 47 then a @ b
      else a @ [47] @ b)"

text \<open>
  \<open>os.path.splitext(p)[1]\<close> on POSIX: the text from the last dot of \<open>p\<close>, when that dot
  comes after the last slash and some character between the two is not a dot.
\<close>

definition rfind :: "nat \<Rightarrow> pystr \<Rightarrow> int" where
  "rfind c p =
     (if c \<in> set p then int (length p) - 1 - int (length (takeWhile (\<lambda>x. x \<noteq> c) (rev p)))
      else - 1)"

definition splitext_ext :: "pystr \<Rightarrow> pystr" where
  "splitext_ext p =
     (let sepIndex = rfind 47 p; dotIndex = rfind 46 p
      in if dotIndex > sepIndex
            \<and> (\<exists>filenameIndex \<in> {nat (sepIndex + 1) ..< nat dotIndex}. p ! filenameIndex \<noteq> 46)
         then drop (nat dotIndex) p else [])"

text \<open>An f-string field: \<open>None\<close> is formatted as the text \<open>None\<close>.\<close>

definition fmt :: "pystr option \<Rightarrow> pystr" where
  "fmt v = (case v of None \<Rightarrow> str ''None'' | Some t \<Rightarrow> t)"

text \<open>\<open>response.images[0]\<close>.\<close>

definition first_image :: "image list \<Rightarrow> error + image" where
  "first_image imgs = (case imgs of [] \<Rightarrow> Inl IndexError | x # _ \<Rightarrow> Inr x)"

text \<open>Lines 194 to 196: the output path computed from the topic.\<close>

definition output_filename :: "env \<Rightarrow> pystr \<Rightarrow> pystr" where
  "output_filename env t =
     replace_char 32 95 (strip env (py_slice 0 50 (filter (\<lambda>e. isalnum env e \<or> e = 32) t)))
       @ str ''.jpg''"

definition output_img_path :: "env \<Rightarrow> pystr \<Rightarrow> pystr" where
  "output_img_path env t = path_join (str ''images/output'') (output_filename env t)"

definition temp_img_path :: pystr where
  "temp_img_path = str ''images/temp/temp.jpg''"

subsection \<open>Prompt templates\<close>

text \<open>Lines 83 to 95: the f-string of the analysis request, with the topic in its first line.\<close>

definition analysis_prompt :: "pystr \<Rightarrow> pystr" where
  "analysis_prompt t =
     str ''Deep analyze text from retail advertising, marketing psychology, and thoroughly researched marketing studies perspective: '' @ t
     @ ind @ str ''Extract the following information:''
     @ ind @ str ''0. Product: Product name, brand and supplier, logo, tagline, size, packaging if available''
     @ ind @ str ''1. Objective: 1 word for primary goal of the banner. Example - Awareness, Engagement, Conversion, Branding''
     @ ind @ str ''2. Festival: Event or occasion it may be tied to. Example - Christmas, Diwali, Black Friday, Summer Sale, New Year, Generic''
     @ ind @ str ''3. Headline: Suggest a main text that captures attention. Example - Discover [product] for [festival], Shop now and save!, Limited time offer, Innovate your life with [product]''
     @ ind @ str ''4. Subheadline: Optional additional supporting information to clarify the offer. Example - Get 50% off until [date], Exclusive deal for festive season, Hurry offer ends soon''
     @ ind @ str ''5. CTA: Add a call to action. Example - Buy now, Shop the collection, Discover More, Sign up today''
     @ ind @ str ''6. Color Scheme: Use color palette based on audience, occasion, or product tone. Example - Red & Gold (Festive, Urgency), Blue & White (Trust, Calm), Green & Brown (Eco-friendly, Natural), Black & White (Elegant, Minimal)''
     @ ind @ str ''7. Promotional offer: Suggest 1 best promotional offer. Example - MAX '' @ rupee
       @ str ''99 OFF, UP TO 60% OFF, UNDER '' @ rupee @ str ''999, MIN '' @ rupee
       @ str ''10 OFF, MIN 20% OFF, STARTS @'' @ rupee @ str ''99, FLAT '' @ rupee
       @ str ''100 OFF, FLAT 20% OFF, '' @ rupee @ str ''499 STORE, BUY 2 GET 1 FREE''
     @ ind @ str ''8. Background color gradient: Dynamic color generation to match overall look and feel''
     @ ind @ str ''9. Background theme: Festival oriented or generic if no festival''
     @ ind"

definition image_extraction_prompt :: pystr where
  "image_extraction_prompt =
     str ''Examine the set of images to extract information about the product (name, logo) in less than 80 words.''"

definition consolidation_prompt :: "pystr \<Rightarrow> pystr" where
  "consolidation_prompt t =
     str ''Respond concisely and summarize in Python dictionary format only this: '' @ t"

definition scrapper_prompt :: "pystr \<Rightarrow> pystr" where
  "scrapper_prompt t =
     str ''Respond concisely by scrapping all unavailable information in Python dictionary format only this: '' @ t"

definition text_prompt :: "pystr \<Rightarrow> pystr" where
  "text_prompt t =
     str ''Task: Fill in the values in this json: '' @ t
     @ ind @ str ''Guidelines:''
     @ ind @ str ''1. It will be used to generate an ads banner.''
     @ ind @ str ''2. Ensure it has all details pair-wise meticulously captured.''
     @ ind @ str ''3. All unknown/missing/unprovided variables are replaced with the attributes of the most probable shopper for that product.''
     @ ind @ str ''4. Recheck and identify all ambiguity or any text that leads to uncertainty.''
     @ ind @ str ''5. Replace all uncertainty with targeted values that make the most sense for the given product.''
     @ ind @ str ''6. Quantify everything possible, like high, medium, and lows to percentage values based on marketing and psychometric research studies.''
     @ ind @ str ''7. All KPIs and qualitative measures are to be used subcontextually only. Remove any details about statistical testing or names of any performance KPIs.''
     @ ind @ str ''8. Avoid sentences and use only necessary keywords.''
     @ ind @ str ''9. Remove all redundant key-value pairs.''
     @ ind"

definition image_prompt :: "pystr \<Rightarrow> pystr" where
  "image_prompt t =
     str ''Realistic, subcontextually implied qualitative attributes inspired, excellent image quality ad capturing every detail in json:'' @ t"

definition lags_prompt :: "pystr \<Rightarrow> pystr" where
  "lags_prompt t =
     str ''Be direct. Quality check the banner out of 10 on:''
     @ ind @ str ''1. Promotional offer present as per instructions below''
     @ ind @ str ''2. Ensure ALL texts pass grammatical checks''
     @ ind @ str ''3. Color pallette as per instructions below''
     @ ind @ str ''4. Occassion or festival theme is present as per instructions below''
     @ nl
     @ ind @ str ''ONLY USE INFORMATION FROM '' @ t @ str ''. Don'' @ apostrophe
       @ str ''t DO NOT make up colors, promo or occasion. Make sure the promo and color pallete is followed as per above instructions.''
     @ nl
     @ ind @ str ''Precisely point out errors and corresponding actions to fix the image where score is below 8.''
     @ ind @ str ''Do not output anything about elements that need no change.''
     @ ind"

definition fix_prompt :: "pystr \<Rightarrow> pystr" where
  "fix_prompt lags =
     str ''Realistic, subcontextually implied qualitative attributes inspired, excellent image quality ad by: '' @ lags"

definition refix_prompt :: "pystr \<Rightarrow> pystr" where
  "refix_prompt lags =
     str ''Realistic, subcontextually implied qualitative attributes inspired, excellent image quality ad edit by: '' @ lags"

subsection \<open>The outside world\<close>

definition log :: "event \<Rightarrow> world \<Rightarrow> world" where
  "log ev w = w\<lparr>trace := trace w @ [ev]\<rparr>"

definition print_line :: "pystr \<Rightarrow> world \<Rightarrow> world" where
  "print_line t w = w\<lparr>console := console w @ [t]\<rparr>"

text \<open>An external call without a result: it raises, or it is recorded.\<close>

definition external :: "error option \<Rightarrow> event \<Rightarrow> world \<Rightarrow> error + world" where
  "external r ev w = (case r of Some e \<Rightarrow> Inl e | None \<Rightarrow> Inr (log ev w))"

text \<open>\<open>self.CONFIGS[k]\<close>.\<close>

definition config_get :: "session \<Rightarrow> pystr \<Rightarrow> error + pystr" where
  "config_get s k = (case map_of (CONFIGS s) k of None \<Rightarrow> Inl (KeyError k) | Some v \<Rightarrow> Inr v)"

text \<open>\<open>PIL.Image.open(p)\<close> and \<open>VertexImage.load_from_file(location=p)\<close>.\<close>

definition pil_open :: "world \<Rightarrow> pystr \<Rightarrow> error + image" where
  "pil_open w p = (case files w p of None \<Rightarrow> Inl (FileNotFoundError p) | Some img \<Rightarrow> Inr img)"

definition load_from_file :: "world \<Rightarrow> pystr \<Rightarrow> error + image" where
  "load_from_file w p = (case files w p of None \<Rightarrow> Inl (FileNotFoundError p) | Some img \<Rightarrow> Inr img)"

definition convert :: "pystr \<Rightarrow> image \<Rightarrow> image" where
  "convert m img = Image m (img_content img)"

definition path_exists :: "world \<Rightarrow> pystr \<Rightarrow> bool" where
  "path_exists w p = (files w p \<noteq> None)"

definition os_remove :: "env \<Rightarrow> pystr \<Rightarrow> world \<Rightarrow> error + world" where
  "os_remove env p w =
     (case files w p of
        None \<Rightarrow> Inl (FileNotFoundError p)
      | Some _ \<Rightarrow> external (fs_fault env (trace w) (EvRemove p)) (EvRemove p)
                   (w\<lparr>files := (files w)(p := None)\<rparr>))"

text \<open>
  \<open>img.save(p)\<close>. \<open>GeneratedImage.save\<close> hands the path to \<open>PIL.Image.save\<close>, which takes the
  format from the extension of the path before it opens the file: without an extension it
  raises \<open>ValueError\<close>, \<open>.jpg\<close> is JPEG, and what it does with any other extension is left to
  \<open>pil_other\<close>. The file is written only after that.
\<close>

definition save_image :: "env \<Rightarrow> image \<Rightarrow> pystr \<Rightarrow> world \<Rightarrow> error + world" where
  "save_image env img p w =
     (let ext = splitext_ext p in
      if ext = [] then Inl (ValueError (str ''unknown file extension: ''))
      else
        ebind (if ext = str ''.jpg'' then Inr ()
               else (case pil_other env ext of Some e \<Rightarrow> Inl e | None \<Rightarrow> Inr ())) (\<lambda>_.
        external (fs_fault env (trace w) (EvSave p img)) (EvSave p img)
          (w\<lparr>files := (files w)(p \<mapsto> img)\<rparr>)))"

text \<open>
  The attribute lookups \<open>self.pm.generate_content\<close>, \<open>self.im.generate_images\<close> and
  \<open>self.em.edit_image\<close>: the fields are declared \<open>Any\<close> with default \<open>None\<close>.
\<close>

definition text_handle :: "handle option \<Rightarrow> error + pystr" where
  "text_handle h = (case h of Some (GenerativeModel name) \<Rightarrow> Inr name | _ \<Rightarrow> Inl AttributeError)"

definition image_handle :: "handle option \<Rightarrow> error + pystr" where
  "image_handle h =
     (case h of Some (ImageGenerationModel name) \<Rightarrow> Inr name | _ \<Rightarrow> Inl AttributeError)"

text \<open>\<open>self.img_response_vN.images[0]\<close>.\<close>

definition response_first :: "image list option \<Rightarrow> error + image" where
  "response_first r = (case r of None \<Rightarrow> Inl AttributeError | Some imgs \<Rightarrow> first_image imgs)"

text \<open>
  \<open>model.generate_content(parts).text\<close>: a prompt passed as one string is one text part,
  and an answer whose \<open>text\<close> cannot be read is a failure of the call.
\<close>

definition generate_content :: "env \<Rightarrow> pystr \<Rightarrow> part list \<Rightarrow> world \<Rightarrow> error + (pystr \<times> world)" where
  "generate_content env name parts w =
     (case text_service env (trace w) name parts of
        Inl e \<Rightarrow> Inl e
      | Inr t \<Rightarrow> Inr (t, log (EvGenerateContent name parts t) w))"

definition generate_images ::
  "env \<Rightarrow> pystr \<Rightarrow> pystr \<Rightarrow> pystr option \<Rightarrow> world \<Rightarrow> error + (image list \<times> world)" where
  "generate_images env name prompt ratio w =
     (case image_service env (trace w) name prompt ratio of
        Inl e \<Rightarrow> Inl e
      | Inr r \<Rightarrow> Inr (r, log (EvGenerateImages name prompt ratio r) w))"

definition edit_image ::
  "env \<Rightarrow> pystr \<Rightarrow> image \<Rightarrow> pystr \<Rightarrow> pystr \<Rightarrow> pystr \<Rightarrow> world \<Rightarrow> error + (image list \<times> world)" where
  "edit_image env name base prompt edit_mode mask_mode w =
     (case edit_service env (trace w) name base prompt edit_mode mask_mode of
        Inl e \<Rightarrow> Inl e
      | Inr r \<Rightarrow> Inr (r, log (EvEditImage name base prompt edit_mode mask_mode r) w))"

text \<open>Truth values of \<open>self.images\<close> and \<open>self.aspect_ratio\<close> in an \<open>if\<close>.\<close>

definition truthy_list :: "'a list option \<Rightarrow> bool" where
  "truthy_list v = (case v of None \<Rightarrow> False | Some xs \<Rightarrow> xs \<noteq> [])"

definition truthy_aspect :: "aspect option \<Rightarrow> bool" where
  "truthy_aspect v = (case v of None \<Rightarrow> False | Some a \<Rightarrow> aspect_str a \<noteq> [])"

subsection \<open>The methods of \<open>BannerGenerator\<close>\<close>

text \<open>\<open>__launch\<close>, lines 46 to 55.\<close>

definition launch :: "env \<Rightarrow> session \<Rightarrow> world \<Rightarrow> error + (session \<times> world)" where
  "launch env s w =
     (if \<not> launch_state s then
        ebind (config_get s (str ''PROJECT_ID'')) (\<lambda>project.
        ebind (config_get s (str ''LOCATION'')) (\<lambda>location.
        ebind (external (vertexai_init env (trace w) project location)
                 (EvVertexInit project location) w) (\<lambda>w1.
        ebind (config_get s (str ''API_KEY'')) (\<lambda>api_key.
        ebind (external (genai_configure env (trace w1) api_key)
                 (EvGenaiConfigure api_key) w1) (\<lambda>w2.
        ebind (external (new_generative_model env (trace w2) (text_model s))
                 (EvGenerativeModel (text_model s)) w2) (\<lambda>w3.
        let s1 = s\<lparr>pm := Some (GenerativeModel (text_model s))\<rparr> in
        ebind (external (from_pretrained env (trace w3) (image_model s1))
                 (EvFromPretrained (image_model s1)) w3) (\<lambda>w4.
        let s2 = s1\<lparr>im := Some (ImageGenerationModel (image_model s1))\<rparr> in
        ebind (external (from_pretrained env (trace w4) (edit_model s2))
                 (EvFromPretrained (edit_model s2)) w4) (\<lambda>w5.
        let s3 = s2\<lparr>em := Some (ImageGenerationModel (edit_model s2))\<rparr>;
            s4 = s3\<lparr>launch_state := True\<rparr>
        in Inr (s4, print_line (str ''Model Launch successful!'') w5)))))))))
      else Inr (s, w))"

text \<open>The loop of \<open>load_images\<close>, lines 62 to 66.\<close>

fun load_loop :: "world \<Rightarrow> pystr list \<Rightarrow> image list \<Rightarrow> error + image list" where
  "load_loop w [] loaded_images = Inr loaded_images"
| "load_loop w (image_path # rest) loaded_images =
     ebind (pil_open w image_path) (\<lambda>img.
       let img = (if img_mode img = str ''RGBA'' then convert (str ''RGB'') img else img)
       in load_loop w rest (loaded_images @ [img]))"

definition load_images :: "env \<Rightarrow> session \<Rightarrow> world \<Rightarrow> error + (image list \<times> session \<times> world)" where
  "load_images env s w =
     ebind (launch env s w) (\<lambda>(s1, w1).
       case images s1 of
         None \<Rightarrow> Inl TypeError
       | Some paths \<Rightarrow> ebind (load_loop w1 paths []) (\<lambda>loaded_images. Inr (loaded_images, s1, w1)))"

definition extract_image_information ::
  "env \<Rightarrow> session \<Rightarrow> world \<Rightarrow> error + (pystr \<times> session \<times> world)" where
  "extract_image_information env s w =
     ebind (load_images env s w) (\<lambda>(imgs, s1, w1).
     let model_input = [PText image_extraction_prompt] @ map PImage imgs in
     ebind (text_handle (pm s1)) (\<lambda>name.
     ebind (generate_content env name model_input w1) (\<lambda>(response_text, w2).
     Inr (response_text, s1, print_line (str ''Attached images examined!'') w2))))"

text \<open>\<open>extract_information\<close>, lines 79 to 111.\<close>

definition extract_information :: "env \<Rightarrow> session \<Rightarrow> world \<Rightarrow> error + (session \<times> world)" where
  "extract_information env s w =
     ebind (launch env s w) (\<lambda>(s1, w1).
     let out_text = analysis_prompt (topic s1) in
     ebind (text_handle (pm s1)) (\<lambda>name.
     ebind (generate_content env name [PText out_text] w1) (\<lambda>(t0, w2).
     let s2 = s1\<lparr>text_v0 := Some t0\<rparr>;
         out_text = consolidation_prompt (fmt (text_v0 s2)) in
     ebind (if truthy_list (images s2) then
              ebind (extract_image_information env s2 w2) (\<lambda>(image_info, s3, w3).
                Inr (out_text @ str '' Product insights: '' @ image_info, s3,
                     print_line (str ''Product insights: '' @ image_info) w3))
            else Inr (out_text, s2, w2)) (\<lambda>(out_text, s3, w3).
     ebind (text_handle (pm s3)) (\<lambda>name.
     ebind (generate_content env name [PText out_text] w3) (\<lambda>(t1, w4).
     let s4 = s3\<lparr>text_v1 := Some (py_slice 9 (- 5) t1)\<rparr>;
         out_text = scrapper_prompt (fmt (text_v1 s4)) in
     ebind (text_handle (pm s4)) (\<lambda>name.
     ebind (generate_content env name [PText out_text] w4) (\<lambda>(t2, w5).
     let s5 = s4\<lparr>text_v2 := Some t2\<rparr>
     in Inr (s5, print_line (str ''Information collection complete!'') w5)))))))))"

text \<open>\<open>create_text_prompt\<close>, lines 113 to 128.\<close>

definition create_text_prompt :: "env \<Rightarrow> session \<Rightarrow> world \<Rightarrow> error + (session \<times> world)" where
  "create_text_prompt env s w =
     (let out_text = text_prompt (fmt (text_v2 s)) in
      ebind (text_handle (pm s)) (\<lambda>name.
      ebind (generate_content env name [PText out_text] w) (\<lambda>(t3, w1).
      let s1 = s\<lparr>text_v3 := Some t3\<rparr>
      in Inr (s1, print_line (str ''Information processed!'') w1))))"

text \<open>\<open>generate_image\<close>, lines 130 to 147.\<close>

definition generate_image :: "env \<Rightarrow> session \<Rightarrow> world \<Rightarrow> error + (pystr \<times> session \<times> world)" where
  "generate_image env s w =
     (let prompt = image_prompt (fmt (text_v3 s)) in
      ebind (if truthy_aspect (aspect_ratio s) then
               ebind (image_handle (im s)) (\<lambda>name.
                 generate_images env name prompt (map_option aspect_str (aspect_ratio s)) w)
             else
               ebind (image_handle (im s)) (\<lambda>name.
                 generate_images env name prompt None w)) (\<lambda>(response, w1).
      let s1 = s\<lparr>img_response_v1 := Some response\<rparr> in
      ebind (if path_exists w1 temp_img_path then os_remove env temp_img_path w1
             else Inr w1) (\<lambda>w2.
      ebind (response_first (img_response_v1 s1)) (\<lambda>img.
      ebind (save_image env img temp_img_path w2) (\<lambda>w3.
      Inr (temp_img_path, s1, print_line (str ''Image v1 generated!'') w3))))))"

text \<open>\<open>identify_lags\<close>, lines 149 to 165.\<close>

definition identify_lags :: "env \<Rightarrow> session \<Rightarrow> world \<Rightarrow> error + (pystr \<times> session \<times> world)" where
  "identify_lags env s w =
     (let prompt = lags_prompt (fmt (text_v3 s)) in
      ebind (text_handle (pm s)) (\<lambda>name.
      ebind (pil_open w temp_img_path) (\<lambda>img.
      ebind (generate_content env name [PText prompt, PImage img] w) (\<lambda>(response_text, w1).
      Inr (response_text, s, print_line (str ''Lags identified: '' @ response_text) w1)))))"

text \<open>\<open>fix_image\<close>, lines 167 to 200: the second pass under \<open>retest\<close>, then the final save.\<close>

definition fix_retest :: "env \<Rightarrow> session \<Rightarrow> world \<Rightarrow> error + (session \<times> world)" where
  "fix_retest env s w =
     ebind (identify_lags env s w) (\<lambda>(lags, s1, w1).
     let prompt = refix_prompt lags in
     ebind (image_handle (em s1)) (\<lambda>name.
     ebind (load_from_file w1 temp_img_path) (\<lambda>base_image.
     ebind (edit_image env name base_image prompt (str ''inpainting-insert'')
              (str ''background'') w1) (\<lambda>(response, w2).
     let s2 = s1\<lparr>img_response_v3 := Some response\<rparr> in
     ebind (response_first (img_response_v3 s2)) (\<lambda>img.
     ebind (save_image env img temp_img_path w2) (\<lambda>w3.
     Inr (s2, print_line (str ''Image v3 generated!'') w3)))))))"

definition fix_image :: "env \<Rightarrow> bool \<Rightarrow> session \<Rightarrow> world \<Rightarrow> error + (pystr \<times> session \<times> world)" where
  "fix_image env retest s w =
     ebind (identify_lags env s w) (\<lambda>(lags, s1, w1).
     let prompt = fix_prompt lags in
     ebind (load_from_file w1 temp_img_path) (\<lambda>base_image.
     ebind (image_handle (em s1)) (\<lambda>name.
     ebind (edit_image env name base_image prompt (str ''inpainting-insert'')
              (str ''background'') w1) (\<lambda>(response, w2).
     let s2 = s1\<lparr>img_response_v2 := Some response\<rparr> in
     ebind (response_first (img_response_v2 s2)) (\<lambda>img.
     ebind (save_image env img temp_img_path w2) (\<lambda>w3.
     let w4 = print_line (str ''Image v2 generated!'') w3 in
     ebind (if retest then fix_retest env s2 w4 else Inr (s2, w4)) (\<lambda>(s3, w5).
     let path = output_img_path env (topic s3) in
     ebind (response_first (img_response_v2 s3)) (\<lambda>img.
     ebind (save_image env img path w5) (\<lambda>w6.
     Inr (path, s3, print_line (str ''Final image saved as: '' @ path) w6))))))))))"

text \<open>\<open>execute\<close>, lines 202 to 208.\<close>

definition execute :: "env \<Rightarrow> bool \<Rightarrow> session \<Rightarrow> world \<Rightarrow> error + (pystr \<times> session \<times> world)" where
  "execute env QC s w =
     ebind (extract_information env s w) (\<lambda>(s1, w1).
     ebind (create_text_prompt env s1 w1) (\<lambda>(s2, w2).
     ebind (generate_image env s2 w2) (\<lambda>(temp_path, s3, w3).
     ebind (fix_image env QC s3 w3) (\<lambda>(final_image_path, s4, w4).
     Inr (final_image_path, s4, w4)))))"

subsection \<open>Construction and a concrete setting\<close>

text \<open>Line 18: the dictionary \<open>info\<close> passed as \<open>CONFIGS\<close>.\<close>

definition info :: "pystr \<Rightarrow> pystr \<Rightarrow> (pystr \<times> pystr) list" where
  "info proj_id api_key =
     [(str ''PROJECT_ID'', proj_id), (str ''LOCATION'', str ''us-central1''),
      (str ''API_KEY'', api_key)]"

text \<open>Lines 27 to 44: a new object, with the defaults of the fields that are not given.\<close>

definition new_session ::
  "(pystr \<times> pystr) list \<Rightarrow> pystr \<Rightarrow> pystr list option \<Rightarrow> aspect option \<Rightarrow> session" where
  "new_session cfg t imgs ratio =
     \<lparr>CONFIGS = cfg, topic = t, images = imgs, aspect_ratio = ratio,
      text_model = str ''gemini-1.5-flash'', image_model = str ''imagen-3.0-generate-001'',
      edit_model = str ''imagegeneration@006'', pm = None, im = None, em = None,
      text_v0 = None, text_v1 = None, text_v2 = None, text_v3 = None,
      img_response_v1 = None, img_response_v2 = None, img_response_v3 = None,
      launch_state = False\<rparr>"

text \<open>
  A setting in which no external call fails: the text model answers with a fenced
  dictionary, and every picture made by the image models is identified by the number of
  external calls made before it.
\<close>

definition fenced_answer :: pystr where
  "fenced_answer = str ''```python'' @ nl @ str ''{}'' @ nl @ str ''```'' @ nl"

definition demo_env :: env where
  "demo_env =
     \<lparr>uni_isalnum = (\<lambda>c. False), uni_isspace = (\<lambda>c. False),
      vertexai_init = (\<lambda>tr project location. None),
      genai_configure = (\<lambda>tr api_key. None),
      new_generative_model = (\<lambda>tr name. None),
      from_pretrained = (\<lambda>tr name. None),
      text_service = (\<lambda>tr name parts. Inr fenced_answer),
      image_service = (\<lambda>tr name prompt ratio. Inr [Image (str ''RGB'') (length tr)]),
      edit_service = (\<lambda>tr name base prompt edit_mode mask_mode.
                        Inr [Image (str ''RGB'') (length tr)]),
      fs_fault = (\<lambda>tr ev. None),
      pil_other = (\<lambda>ext. None)\<rparr>"

definition demo_world :: world where
  "demo_world =
     \<lparr>files = [str ''ghee.png'' \<mapsto> Image (str ''RGBA'') 0], trace = [], console = []\<rparr>"

definition demo_session :: session where
  "demo_session =
     new_session (info (str ''proj'') (str ''key''))
       (str ''Diwali Sale on Premium Ghee 1kg Jar'') None None"

text \<open>The same request with one product photograph.\<close>

definition photo_session :: session where
  "photo_session =
     new_session (info (str ''proj'') (str ''key''))
       (str ''Diwali Sale on Premium Ghee 1kg Jar'') (Some [str ''ghee.png'']) None"

text \<open>A topic of punctuation only, and a topic of three spaces.\<close>

definition bang_session :: session where
  "bang_session = new_session (info (str ''proj'') (str ''key'')) (str ''!!!'') None None"

definition blank_session :: session where
  "blank_session = new_session (info (str ''proj'') (str ''key'')) (str ''   '') None None"

text \<open>
  The session after \<open>__launch\<close>, asked for a wide banner, and a world with a stale
  temporary image.
\<close>

definition wide_session :: session where
  "wide_session =
     demo_session\<lparr>aspect_ratio := Some R16_9,
       pm := Some (GenerativeModel (str ''gemini-1.5-flash'')),
       im := Some (ImageGenerationModel (str ''imagen-3.0-generate-001'')),
       em := Some (ImageGenerationModel (str ''imagegeneration@006'')),
       text_v3 := Some (str ''{}''),
       launch_state := True\<rparr>"

definition stale_world :: world where
  "stale_world = \<lparr>files = [temp_img_path \<mapsto> Image (str ''RGB'') 7], trace = [], console = []\<rparr>"

subsection \<open>Observations on the sequence of external calls\<close>

text \<open>Lines 64 and 65 as one function of the opened image.\<close>

definition to_rgb :: "image \<Rightarrow> image" where
  "to_rgb img = (if img_mode img = str ''RGBA'' then convert (str ''RGB'') img else img)"

fun is_generate_images :: "event \<Rightarrow> bool" where
  "is_generate_images (EvGenerateImages name prompt ratio response) = True"
| "is_generate_images ev = False"

fun is_edit_image :: "event \<Rightarrow> bool" where
  "is_edit_image (EvEditImage name base prompt edit_mode mask_mode response) = True"
| "is_edit_image ev = False"

fun is_generate_content :: "event \<Rightarrow> bool" where
  "is_generate_content (EvGenerateContent name parts response) = True"
| "is_generate_content ev = False"

fun is_file_change :: "event \<Rightarrow> bool" where
  "is_file_change (EvRemove p) = True"
| "is_file_change (EvSave p img) = True"
| "is_file_change ev = False"

subsection \<open>The output name as the specification words it\<close>

text \<open>
  The specification describes the basename of the output file as the topic with only its
  alphanumeric characters and spaces kept, truncated to 50 characters, stripped of
  surrounding whitespace, and with underscores for spaces. This is that description,
  written without the Python operations of the code.
\<close>

fun strip_leading :: "env \<Rightarrow> pystr \<Rightarrow> pystr" where
  "strip_leading env [] = []"
| "strip_leading env (c # cs) = (if isspace env c then strip_leading env cs else c # cs)"

definition spec_basename :: "env \<Rightarrow> pystr \<Rightarrow> pystr" where
  "spec_basename env t =
     map (\<lambda>c. if c = 32 then 95 else c)
       (rev (strip_leading env (rev (strip_leading env
          (take 50 [c \<leftarrow> t. isalnum env c \<or> c = 32])))))"

subsection \<open>Assumptions on the services\<close>

text \<open>
  No external call fails, and the image models answer with at least one image each time.
\<close>

definition reliable :: "env \<Rightarrow> bool" where
  "reliable env \<longleftrightarrow>
     (\<forall>tr project location. vertexai_init env tr project location = None)
   \<and> (\<forall>tr api_key. genai_configure env tr api_key = None)
   \<and> (\<forall>tr name. new_generative_model env tr name = None)
   \<and> (\<forall>tr name. from_pretrained env tr name = None)
   \<and> (\<forall>tr name parts. \<exists>t. text_service env tr name parts = Inr t)
   \<and> (\<forall>tr name prompt ratio. \<exists>img rest. image_service env tr name prompt ratio = Inr (img # rest))
   \<and> (\<forall>tr name base prompt edit_mode mask_mode. \<exists>img rest.
         edit_service env tr name base prompt edit_mode mask_mode = Inr (img # rest))
   \<and> (\<forall>tr ev. fs_fault env tr ev = None)"

text \<open>A new object whose \<open>CONFIGS\<close> has the three keys that \<open>__launch\<close> reads.\<close>

definition configured :: "session \<Rightarrow> bool" where
  "configured s \<longleftrightarrow>
     \<not> launch_state s
   \<and> map_of (CONFIGS s) (str ''PROJECT_ID'') \<noteq> None
   \<and> map_of (CONFIGS s) (str ''LOCATION'') \<noteq> None
   \<and> map_of (CONFIGS s) (str ''API_KEY'') \<noteq> None"

subsection \<open>Services that are down\<close>

definition text_down_env :: env where
  "text_down_env = demo_env\<lparr>text_service := (\<lambda>tr name parts. Inl (ExternalError 503))\<rparr>"

definition edit_down_env :: env where
  "edit_down_env =
     demo_env\<lparr>edit_service :=
       (\<lambda>tr name base prompt edit_mode mask_mode. Inl (ExternalError 500))\<rparr>"

section \<open>Properties\<close>

subsection \<open>Sequencing\<close>

lemma ebind_Inr: "ebind m f = Inr r \<longleftrightarrow> (\<exists>x. m = Inr x \<and> f x = Inr r)"
  by (cases m) (simp_all add: ebind_def)

lemma ebind_Inl: "ebind m f = Inl e \<longleftrightarrow> (m = Inl e \<or> (\<exists>x. m = Inr x \<and> f x = Inl e))"
  by (cases m) (simp_all add: ebind_def)

lemma external_Inr: "external r ev w = Inr w' \<longleftrightarrow> (r = None \<and> w' = log ev w)"
  by (cases r) (auto simp: external_def)

lemma config_get_Inr: "config_get s k = Inr v \<longleftrightarrow> map_of (CONFIGS s) k = Some v"
  by (simp add: config_get_def split: option.splits)

lemma ebind_simps [simp]: "ebind (Inl e) f = Inl e" "ebind (Inr x) f = f x"
  by (simp_all add: ebind_def)

subsection \<open>Slices\<close>

lemma py_slice_take: "0 \<le> k \<Longrightarrow> py_slice 0 k xs = take (nat k) xs"
  by (auto simp: py_slice_def Let_def min_def)

lemma py_slice_9_5: "py_slice 9 (- 5) xs = drop 9 (take (length xs - 5) xs)"
  by (auto simp: py_slice_def Let_def min_def max_def take_drop nat_diff_distrib
      intro: arg_cong2 [where f = take])

subsection \<open>The output path\<close>

lemma strip_leading_dropWhile: "strip_leading env s = dropWhile (isspace env) s"
  by (induction s) simp_all

lemma output_filename_spec: "output_filename env t = spec_basename env t @ str ''.jpg''"
  by (simp add: output_filename_def spec_basename_def strip_def replace_char_def
      py_slice_take strip_leading_dropWhile)

lemma set_strip: "set (strip env s) \<subseteq> set s"
proof -
  have "set (strip env s) \<subseteq> set (rev (dropWhile (isspace env) s))"
    unfolding strip_def by (auto dest: set_dropWhileD)
  also have "\<dots> \<subseteq> set s"
    by (auto dest: set_dropWhileD)
  finally show ?thesis .
qed

lemma length_strip: "length (strip env s) \<le> length s"
proof -
  have "length (strip env s) \<le> length (dropWhile (isspace env) s)"
    unfolding strip_def by (metis length_dropWhile_le length_rev)
  also have "\<dots> \<le> length s"
    by (rule length_dropWhile_le)
  finally show ?thesis .
qed

lemma spec_basename_strip:
  "spec_basename env t =
     replace_char 32 95 (strip env (take 50 [c \<leftarrow> t. isalnum env c \<or> c = 32]))"
  by (simp add: spec_basename_def strip_def replace_char_def strip_leading_dropWhile)

lemma spec_basename_chars:
  assumes "c \<in> set (spec_basename env t)"
  shows "isalnum env c \<or> c = 95"
proof -
  from assms obtain d where d: "d \<in> set (strip env (take 50 [c \<leftarrow> t. isalnum env c \<or> c = 32]))"
    and c: "c = (if d = 32 then 95 else d)"
    by (auto simp: spec_basename_strip replace_char_def)
  from d set_strip have "d \<in> set (take 50 [c \<leftarrow> t. isalnum env c \<or> c = 32])"
    by blast
  then have "isalnum env d \<or> d = 32"
    by (auto dest: in_set_takeD)
  with c show ?thesis
    by auto
qed

lemma spec_basename_length: "length (spec_basename env t) \<le> 50"
proof -
  have "length (spec_basename env t)
      = length (strip env (take 50 [c \<leftarrow> t. isalnum env c \<or> c = 32]))"
    by (simp add: spec_basename_strip replace_char_def)
  also have "\<dots> \<le> length (take 50 [c \<leftarrow> t. isalnum env c \<or> c = 32])"
    by (rule length_strip)
  also have "\<dots> \<le> 50"
    by simp
  finally show ?thesis .
qed

lemma output_img_path_spec:
  "output_img_path env t = str ''images/output/'' @ spec_basename env t @ str ''.jpg''"
proof -
  have slash: "\<not> isalnum env 47"
    by (simp add: isalnum_def)
  have "hd (spec_basename env t @ str ''.jpg'') \<noteq> 47"
  proof (cases "spec_basename env t")
    case Nil
    then show ?thesis by (simp add: str_def)
  next
    case (Cons c cs)
    then have "c \<in> set (spec_basename env t)"
      by simp
    from spec_basename_chars [OF this] slash have "c \<noteq> 47"
      by auto
    with Cons show ?thesis by simp
  qed
  then show ?thesis
    by (simp add: output_img_path_def path_join_def output_filename_spec) (simp add: str_def)
qed

lemma diwali_basename:
  "spec_basename env (str ''Diwali Sale on Premium Ghee 1kg Jar'')
     = str ''Diwali_Sale_on_Premium_Ghee_1kg_Jar''"
  by (simp add: spec_basename_def str_def isalnum_def isspace_def)

lemma spec_basename_no_dot: "46 \<notin> set (spec_basename env t)" "47 \<notin> set (spec_basename env t)"
  using spec_basename_chars [of 46 env t] spec_basename_chars [of 47 env t]
  by (auto simp: isalnum_def)

subsection \<open>Extensions\<close>

lemma rfind_last: "c \<notin> set ys \<Longrightarrow> rfind c (xs @ c # ys) = int (length xs)"
proof -
  assume a: "c \<notin> set ys"
  then have "\<forall>x \<in> set (rev ys). x \<noteq> c"
    by auto
  then have "takeWhile (\<lambda>x. x \<noteq> c) (rev ys @ c # rev xs) = rev ys"
    by (simp add: takeWhile_tail)
  then show ?thesis
    by (simp add: rfind_def)
qed

lemma splitext_jpg:
  assumes "46 \<notin> set stem" and "47 \<notin> set stem"
  shows "splitext_ext (dir @ 47 # stem @ str ''.jpg'')
           = (if stem = [] then [] else str ''.jpg'')"
proof -
  let ?p = "dir @ 47 # stem @ str ''.jpg''"
  have p2: "?p = (dir @ 47 # stem) @ 46 # str ''jpg''"
    by (simp add: str_def)
  have sep: "rfind 47 ?p = int (length dir)"
    using assms(2) by (subst rfind_last) (simp_all add: str_def)
  have dot: "rfind 46 ?p = int (length dir) + 1 + int (length stem)"
    unfolding p2 by (subst rfind_last) (simp_all add: str_def)
  have scan: "(\<exists>i \<in> {length dir + 1 ..< length dir + 1 + length stem}. ?p ! i \<noteq> 46)
      \<longleftrightarrow> stem \<noteq> []"
  proof
    assume "\<exists>i \<in> {length dir + 1 ..< length dir + 1 + length stem}. ?p ! i \<noteq> 46"
    then show "stem \<noteq> []" by auto
  next
    assume ne: "stem \<noteq> []"
    then have "hd stem \<in> set stem" by simp
    with assms(1) have "hd stem \<noteq> 46" by auto
    moreover have "?p ! (length dir + 1) = hd stem"
      using ne by (simp add: nth_append hd_conv_nth)
    ultimately show "\<exists>i \<in> {length dir + 1 ..< length dir + 1 + length stem}. ?p ! i \<noteq> 46"
      using ne by (intro bexI [of _ "length dir + 1"]) simp_all
  qed
  have dr: "drop (length dir + 1 + length stem) ?p = str ''.jpg''"
    by simp
  have idx: "nat (int (length dir) + 1) = length dir + 1"
    "nat (int (length dir) + 1 + int (length stem)) = length dir + 1 + length stem"
    by simp_all
  show ?thesis
    unfolding splitext_ext_def Let_def sep dot idx using scan dr by simp
qed

lemma splitext_temp: "splitext_ext temp_img_path = str ''.jpg''"
proof -
  have e: "temp_img_path = str ''images/temp'' @ 47 # str ''temp'' @ str ''.jpg''"
    by (simp add: temp_img_path_def str_def)
  show ?thesis
    by (subst e, subst splitext_jpg) (simp_all add: str_def)
qed

lemma splitext_output:
  "splitext_ext (output_img_path env t) = (if spec_basename env t = [] then [] else str ''.jpg'')"
proof -
  have "output_img_path env t = str ''images/output'' @ 47 # spec_basename env t @ str ''.jpg''"
    by (simp add: output_img_path_spec) (simp add: str_def)
  then show ?thesis
    by (simp add: splitext_jpg spec_basename_no_dot)
qed

lemma jpg_not_empty: "str ''.jpg'' \<noteq> []"
  by (simp add: str_def)

subsection \<open>External calls and files\<close>

lemma str_eq_Nil [simp]: "str s = [] \<longleftrightarrow> s = []"
  by (simp add: str_def)

lemma trace_log [simp]: "trace (log ev w) = trace w @ [ev]"
  and files_log [simp]: "files (log ev w) = files w"
  and console_log [simp]: "console (log ev w) = console w"
  by (simp_all add: log_def)

lemma trace_print [simp]: "trace (print_line t w) = trace w"
  and files_print [simp]: "files (print_line t w) = files w"
  and console_print [simp]: "console (print_line t w) = console w @ [t]"
  by (simp_all add: print_line_def)

lemma text_handle_Inr: "text_handle h = Inr n \<longleftrightarrow> h = Some (GenerativeModel n)"
  by (auto simp: text_handle_def split: option.splits handle.splits)

lemma image_handle_Inr: "image_handle h = Inr n \<longleftrightarrow> h = Some (ImageGenerationModel n)"
  by (auto simp: image_handle_def split: option.splits handle.splits)

lemma generate_content_Inr:
  "generate_content env name parts w = Inr (t, w') \<longleftrightarrow>
     text_service env (trace w) name parts = Inr t \<and> w' = log (EvGenerateContent name parts t) w"
  by (auto simp: generate_content_def split: sum.splits)

lemma generate_images_Inr:
  "generate_images env name prompt ratio w = Inr (r, w') \<longleftrightarrow>
     image_service env (trace w) name prompt ratio = Inr r
     \<and> w' = log (EvGenerateImages name prompt ratio r) w"
  by (auto simp: generate_images_def split: sum.splits)

lemma edit_image_Inr:
  "edit_image env name base prompt emode mmode w = Inr (r, w') \<longleftrightarrow>
     edit_service env (trace w) name base prompt emode mmode = Inr r
     \<and> w' = log (EvEditImage name base prompt emode mmode r) w"
  by (auto simp: edit_image_def split: sum.splits)

lemma pil_open_Inr: "pil_open w p = Inr img \<longleftrightarrow> files w p = Some img"
  by (auto simp: pil_open_def split: option.splits)

lemma load_from_file_Inr: "load_from_file w p = Inr img \<longleftrightarrow> files w p = Some img"
  by (auto simp: load_from_file_def split: option.splits)

lemma save_image_temp:
  "save_image env img temp_img_path w =
     external (fs_fault env (trace w) (EvSave temp_img_path img)) (EvSave temp_img_path img)
       (w\<lparr>files := (files w)(temp_img_path \<mapsto> img)\<rparr>)"
  by (simp add: save_image_def splitext_temp jpg_not_empty)

lemma save_image_output:
  "save_image env img (output_img_path env t) w =
     (if spec_basename env t = [] then Inl (ValueError (str ''unknown file extension: ''))
      else external (fs_fault env (trace w) (EvSave (output_img_path env t) img))
             (EvSave (output_img_path env t) img)
             (w\<lparr>files := (files w)(output_img_path env t \<mapsto> img)\<rparr>))"
  by (simp add: save_image_def splitext_output jpg_not_empty)

lemma save_temp_Inr:
  "save_image env img temp_img_path w = Inr w' \<longleftrightarrow>
     fs_fault env (trace w) (EvSave temp_img_path img) = None
     \<and> w' = log (EvSave temp_img_path img) (w\<lparr>files := (files w)(temp_img_path \<mapsto> img)\<rparr>)"
  by (simp add: save_image_temp external_Inr)

lemma save_output_Inr:
  "save_image env img (output_img_path env t) w = Inr w' \<longleftrightarrow>
     spec_basename env t \<noteq> []
     \<and> fs_fault env (trace w) (EvSave (output_img_path env t) img) = None
     \<and> w' = log (EvSave (output_img_path env t) img)
              (w\<lparr>files := (files w)(output_img_path env t \<mapsto> img)\<rparr>)"
  by (simp add: save_image_output external_Inr)

lemma os_remove_Inr:
  "os_remove env p w = Inr w' \<longleftrightarrow>
     files w p \<noteq> None \<and> fs_fault env (trace w) (EvRemove p) = None
     \<and> w' = log (EvRemove p) (w\<lparr>files := (files w)(p := None)\<rparr>)"
  by (auto simp: os_remove_def external_Inr split: option.splits)

lemma response_first_Inr:
  "response_first r = Inr img \<longleftrightarrow> (\<exists>rest. r = Some (img # rest))"
  by (auto simp: response_first_def first_image_def split: option.splits list.splits)

lemma truthy_aspect_iff: "truthy_aspect a \<longleftrightarrow> a \<noteq> None"
proof (cases a)
  case None
  then show ?thesis by (simp add: truthy_aspect_def)
next
  case (Some r)
  then show ?thesis by (cases r) (simp_all add: truthy_aspect_def str_def)
qed

lemma create_text_prompt_Inr:
  "create_text_prompt env s w = Inr (s', w') \<longleftrightarrow>
     (\<exists>name t3. pm s = Some (GenerativeModel name)
        \<and> text_service env (trace w) name [PText (text_prompt (fmt (text_v2 s)))] = Inr t3
        \<and> s' = s\<lparr>text_v3 := Some t3\<rparr>
        \<and> w' = print_line (str ''Information processed!'')
                 (log (EvGenerateContent name [PText (text_prompt (fmt (text_v2 s)))] t3) w))"
  by (auto simp: create_text_prompt_def Let_def ebind_Inr text_handle_Inr generate_content_Inr)

lemma identify_lags_Inr:
  "identify_lags env s w = Inr (t, s', w') \<longleftrightarrow>
     (\<exists>name img. pm s = Some (GenerativeModel name) \<and> files w temp_img_path = Some img
        \<and> text_service env (trace w) name
             [PText (lags_prompt (fmt (text_v3 s))), PImage img] = Inr t
        \<and> s' = s
        \<and> w' = print_line (str ''Lags identified: '' @ t)
                 (log (EvGenerateContent name
                    [PText (lags_prompt (fmt (text_v3 s))), PImage img] t) w))"
  by (auto simp: identify_lags_def Let_def ebind_Inr text_handle_Inr generate_content_Inr
      pil_open_Inr)

subsection \<open>Launching the models\<close>

lemma launch_done: "launch_state s \<Longrightarrow> launch env s w = Inr (s, w)"
  by (simp add: launch_def)

lemma launch_first:
  assumes "\<not> launch_state s" and "launch env s w = Inr (s1, w1)"
  shows "s1 = s\<lparr>pm := Some (GenerativeModel (text_model s)),
                im := Some (ImageGenerationModel (image_model s)),
                em := Some (ImageGenerationModel (edit_model s)),
                launch_state := True\<rparr>"
    and "files w1 = files w"
    and "\<exists>project location api_key.
           trace w1 = trace w @ [EvVertexInit project location, EvGenaiConfigure api_key,
             EvGenerativeModel (text_model s), EvFromPretrained (image_model s),
             EvFromPretrained (edit_model s)]"
  using assms
  by (auto simp: launch_def ebind_Inr external_Inr Let_def log_def print_line_def)

lemma launch_demo:
  "launch demo_env demo_session demo_world =
     Inr (demo_session\<lparr>pm := Some (GenerativeModel (text_model demo_session)),
                       im := Some (ImageGenerationModel (image_model demo_session)),
                       em := Some (ImageGenerationModel (edit_model demo_session)),
                       launch_state := True\<rparr>,
          print_line (str ''Model Launch successful!'')
            (log (EvFromPretrained (edit_model demo_session))
            (log (EvFromPretrained (image_model demo_session))
            (log (EvGenerativeModel (text_model demo_session))
            (log (EvGenaiConfigure (str ''key''))
            (log (EvVertexInit (str ''proj'') (str ''us-central1'')) demo_world))))))"
  by (simp add: launch_def demo_session_def new_session_def info_def demo_env_def
      config_get_def external_def ebind_def str_def)

text \<open>
  Claim C10. A call of \<open>__launch\<close> that returns leaves \<open>launch_state\<close> set, and any
  further call, whatever the services would answer, returns with the session and the world
  as they are. When \<open>launch_state\<close> was not set before, the call sets the three model
  handles from the three model names and \<open>launch_state\<close>, and no other field of the session.
  When it was set, the call changes nothing.
\<close>

theorem launch_idempotent:
  assumes "launch env s w = Inr (s1, w1)"
  shows "launch_state s1 \<and> launch env' s1 w1 = Inr (s1, w1)
     \<and> (\<not> launch_state s \<longrightarrow>
          s1 = s\<lparr>pm := Some (GenerativeModel (text_model s)),
                 im := Some (ImageGenerationModel (image_model s)),
                 em := Some (ImageGenerationModel (edit_model s)),
                 launch_state := True\<rparr>)
     \<and> (launch_state s \<longrightarrow> s1 = s \<and> w1 = w)"
proof (cases "launch_state s")
  case True
  with assms have "s1 = s" and "w1 = w"
    by (simp_all add: launch_done)
  with True show ?thesis
    by (simp add: launch_done)
next
  case False
  from launch_first(1) [OF False assms] have s1: "launch_state s1"
    by simp
  with False launch_first(1) [OF False assms] show ?thesis
    by (simp add: launch_done)
qed

theorem launch_idempotent_witness:
  "\<exists>s1 w1. launch demo_env demo_session demo_world = Inr (s1, w1)
     \<and> \<not> launch_state demo_session \<and> launch_state s1
     \<and> launch demo_env s1 w1 = Inr (s1, w1)
     \<and> pm s1 = Some (GenerativeModel (str ''gemini-1.5-flash''))
     \<and> im s1 = Some (ImageGenerationModel (str ''imagen-3.0-generate-001''))
     \<and> em s1 = Some (ImageGenerationModel (str ''imagegeneration@006''))"
proof -
  obtain s1 w1 where run: "launch demo_env demo_session demo_world = Inr (s1, w1)"
    using launch_demo by blast
  have fresh: "\<not> launch_state demo_session"
    by (simp add: demo_session_def new_session_def)
  note facts = launch_idempotent [OF run, of demo_env]
  from facts have set: "launch_state s1"
    by blast
  from facts have again: "launch demo_env s1 w1 = Inr (s1, w1)"
    by blast
  from facts fresh
  have s1: "s1 = demo_session\<lparr>pm := Some (GenerativeModel (text_model demo_session)),
                 im := Some (ImageGenerationModel (image_model demo_session)),
                 em := Some (ImageGenerationModel (edit_model demo_session)),
                 launch_state := True\<rparr>"
    by blast
  from s1 have "pm s1 = Some (GenerativeModel (str ''gemini-1.5-flash''))"
    and "im s1 = Some (ImageGenerationModel (str ''imagen-3.0-generate-001''))"
    and "em s1 = Some (ImageGenerationModel (str ''imagegeneration@006''))"
    by (simp_all add: demo_session_def new_session_def)
  with run fresh set again show ?thesis
    by blast
qed

subsection \<open>Image generation\<close>

lemma generate_image_Inr:
  assumes "generate_image env s w = Inr (p, s', w')"
  shows "\<exists>name img rest.
           im s = Some (ImageGenerationModel name)
         \<and> image_service env (trace w) name (image_prompt (fmt (text_v3 s)))
              (map_option aspect_str (aspect_ratio s)) = Inr (img # rest)
         \<and> p = temp_img_path
         \<and> s' = s\<lparr>img_response_v1 := Some (img # rest)\<rparr>
         \<and> trace w' = trace w
              @ [EvGenerateImages name (image_prompt (fmt (text_v3 s)))
                   (map_option aspect_str (aspect_ratio s)) (img # rest)]
              @ (if files w temp_img_path \<noteq> None then [EvRemove temp_img_path] else [])
              @ [EvSave temp_img_path img]
         \<and> files w' = (files w)(temp_img_path \<mapsto> img)
         \<and> console w' = console w @ [str ''Image v1 generated!'']"
  using assms
  apply (cases "aspect_ratio s"; cases "files w temp_img_path")
  apply (simp_all add: generate_image_def Let_def truthy_aspect_iff path_exists_def)
  apply (simp_all add: ebind_Inr image_handle_Inr generate_images_Inr response_first_Inr save_temp_Inr save_output_Inr os_remove_Inr)
  apply (clarsimp simp: os_remove_Inr)+
  done

lemma generate_image_wide:
  "generate_image demo_env wide_session stale_world =
     Inr (temp_img_path, wide_session\<lparr>img_response_v1 := Some [Image (str ''RGB'') 0]\<rparr>,
       print_line (str ''Image v1 generated!'')
         (log (EvSave temp_img_path (Image (str ''RGB'') 0))
           ((log (EvRemove temp_img_path)
              ((log (EvGenerateImages (str ''imagen-3.0-generate-001'') (image_prompt (str ''{}''))
                  (Some (str ''16:9'')) [Image (str ''RGB'') 0]) stale_world)
                \<lparr>files := Map.empty\<rparr>))
            \<lparr>files := [temp_img_path \<mapsto> Image (str ''RGB'') 0]\<rparr>)))"
  by (simp add: generate_image_def wide_session_def demo_session_def new_session_def
      stale_world_def demo_env_def truthy_aspect_def image_handle_def generate_images_def
      path_exists_def os_remove_def save_image_temp save_image_output external_def response_first_def
      first_image_def fmt_def log_def print_line_def Let_def)

text \<open>
  Claim C5. A run of \<open>generate_image\<close> that returns made exactly one image-generation
  request. With an aspect ratio in the session the request carries the text of that ratio;
  with none, the request has no aspect-ratio argument.
\<close>

theorem generate_image_aspect_ratio:
  assumes "generate_image env s w = Inr (p, s', w')"
  shows "\<exists>name response.
           filter is_generate_images (trace w') = filter is_generate_images (trace w)
             @ [EvGenerateImages name (image_prompt (fmt (text_v3 s)))
                  (case aspect_ratio s of None \<Rightarrow> None | Some a \<Rightarrow> Some (aspect_str a))
                  response]"
proof -
  from generate_image_Inr [OF assms] obtain name img rest where
    "trace w' = trace w
              @ [EvGenerateImages name (image_prompt (fmt (text_v3 s)))
                   (map_option aspect_str (aspect_ratio s)) (img # rest)]
              @ (if files w temp_img_path \<noteq> None then [EvRemove temp_img_path] else [])
              @ [EvSave temp_img_path img]"
    by blast
  then have "filter is_generate_images (trace w') = filter is_generate_images (trace w)
             @ [EvGenerateImages name (image_prompt (fmt (text_v3 s)))
                  (map_option aspect_str (aspect_ratio s)) (img # rest)]"
    by simp
  then show ?thesis
    by (cases "aspect_ratio s") auto
qed

theorem generate_image_aspect_ratio_witness:
  "\<exists>p s' w'. generate_image demo_env wide_session stale_world = Inr (p, s', w')
     \<and> aspect_ratio wide_session = Some R16_9
     \<and> (\<exists>name response. filter is_generate_images (trace w') =
           [EvGenerateImages name (image_prompt (str ''{}'')) (Some (str ''16:9'')) response])"
proof -
  have ratio: "aspect_ratio wide_session = Some R16_9" and v3: "text_v3 wide_session = Some (str ''{}'')"
    by (simp_all add: wide_session_def)
  from generate_image_aspect_ratio [OF generate_image_wide] ratio v3
  have "\<exists>name response.
          filter is_generate_images (trace (print_line (str ''Image v1 generated!'')
         (log (EvSave temp_img_path (Image (str ''RGB'') 0))
           ((log (EvRemove temp_img_path)
              ((log (EvGenerateImages (str ''imagen-3.0-generate-001'') (image_prompt (str ''{}''))
                  (Some (str ''16:9'')) [Image (str ''RGB'') 0]) stale_world)
                \<lparr>files := Map.empty\<rparr>))
            \<lparr>files := [temp_img_path \<mapsto> Image (str ''RGB'') 0]\<rparr>)))) =
          [EvGenerateImages name (image_prompt (str ''{}'')) (Some (str ''16:9'')) response]"
    by (simp add: fmt_def stale_world_def)
  with generate_image_wide ratio show ?thesis
    by blast
qed



subsection \<open>Information extraction\<close>

lemma launch_Inr:
  assumes "launch env s w = Inr (s1, w1)"
  shows "launch_state s1" and "topic s1 = topic s" and "images s1 = images s"
    and "aspect_ratio s1 = aspect_ratio s" and "files w1 = files w"
    and "\<exists>pre. trace w1 = trace w @ pre \<and> filter is_generate_content pre = []
           \<and> filter is_generate_images pre = [] \<and> filter is_edit_image pre = []
           \<and> filter is_file_change pre = []"
    and "\<not> launch_state s \<Longrightarrow> \<exists>name. pm s1 = Some (GenerativeModel name)"
    and "\<not> launch_state s \<Longrightarrow> \<exists>name. im s1 = Some (ImageGenerationModel name)"
    and "\<not> launch_state s \<Longrightarrow> \<exists>name. em s1 = Some (ImageGenerationModel name)"
proof -
  have keep: "launch_state s1 \<and> topic s1 = topic s \<and> images s1 = images s
     \<and> aspect_ratio s1 = aspect_ratio s \<and> files w1 = files w"
  proof (cases "launch_state s")
    case True
    with assms show ?thesis by (simp add: launch_done)
  next
    case False
    from launch_first(1) [OF False assms] launch_first(2) [OF False assms]
    show ?thesis by simp
  qed
  then show "launch_state s1" and "topic s1 = topic s" and "images s1 = images s"
    and "aspect_ratio s1 = aspect_ratio s" and "files w1 = files w"
    by blast+
  show "\<exists>pre. trace w1 = trace w @ pre \<and> filter is_generate_content pre = []
           \<and> filter is_generate_images pre = [] \<and> filter is_edit_image pre = []
           \<and> filter is_file_change pre = []"
  proof (cases "launch_state s")
    case True
    with assms show ?thesis by (simp add: launch_done)
  next
    case False
    from launch_first(3) [OF False assms] obtain project location api_key where
      "trace w1 = trace w @ [EvVertexInit project location, EvGenaiConfigure api_key,
             EvGenerativeModel (text_model s), EvFromPretrained (image_model s),
             EvFromPretrained (edit_model s)]"
      by blast
    then show ?thesis
      by simp
  qed
  show "\<exists>name. pm s1 = Some (GenerativeModel name)" if "\<not> launch_state s"
    using launch_first(1) [OF that assms] by simp
  show "\<exists>name. im s1 = Some (ImageGenerationModel name)" if "\<not> launch_state s"
    using launch_first(1) [OF that assms] by simp
  show "\<exists>name. em s1 = Some (ImageGenerationModel name)" if "\<not> launch_state s"
    using launch_first(1) [OF that assms] by simp
qed

lemma load_loop_Inr:
  "load_loop w paths acc = Inr r \<longleftrightarrow>
     (\<forall>p \<in> set paths. files w p \<noteq> None) \<and> r = acc @ map (\<lambda>p. to_rgb (the (files w p))) paths"
  by (induction paths arbitrary: acc)
     (auto simp: ebind_Inr pil_open_Inr Let_def to_rgb_def)

lemma extract_image_information_Inr:
  assumes "launch_state s" and "extract_image_information env s w = Inr (t, s', w')"
  shows "\<exists>name paths imgs. images s = Some paths \<and> load_loop w paths [] = Inr imgs
       \<and> pm s = Some (GenerativeModel name)
       \<and> text_service env (trace w) name (PText image_extraction_prompt # map PImage imgs) = Inr t
       \<and> s' = s
       \<and> w' = print_line (str ''Attached images examined!'')
               (log (EvGenerateContent name (PText image_extraction_prompt # map PImage imgs) t) w)"
  using assms
  apply (cases "images s")
   apply (simp_all add: extract_image_information_def load_images_def launch_done Let_def)
  apply (simp add: ebind_Inr text_handle_Inr generate_content_Inr)
  apply clarsimp
  done

lemma truthy_list_iff: "truthy_list v \<longleftrightarrow> (\<exists>x xs. v = Some (x # xs))"
  by (auto simp: truthy_list_def neq_Nil_conv split: option.splits)

lemma extract_information_Inr:
  assumes "extract_information env s w = Inr (s', w')"
  shows "\<exists>s1 w1 name t0 t1 t2 extra request.
      launch env s w = Inr (s1, w1) \<and> pm s1 = Some (GenerativeModel name)
    \<and> s' = s1\<lparr>text_v0 := Some t0, text_v1 := Some (py_slice 9 (- 5) t1), text_v2 := Some t2\<rparr>
    \<and> files w' = files w
    \<and> (truthy_list (images s) \<longrightarrow>
          (\<exists>paths imgs info. images s = Some paths \<and> load_loop w paths [] = Inr imgs
             \<and> text_service env
                  (trace w1 @ [EvGenerateContent name [PText (analysis_prompt (topic s))] t0])
                  name (PText image_extraction_prompt # map PImage imgs) = Inr info
             \<and> extra = [EvGenerateContent name
                          (PText image_extraction_prompt # map PImage imgs) info]
             \<and> request = consolidation_prompt t0 @ str '' Product insights: '' @ info))
    \<and> (\<not> truthy_list (images s) \<longrightarrow> extra = [] \<and> request = consolidation_prompt t0)
    \<and> text_service env
          (trace w1 @ [EvGenerateContent name [PText (analysis_prompt (topic s))] t0] @ extra)
          name [PText request] = Inr t1
    \<and> trace w' = trace w1 @ [EvGenerateContent name [PText (analysis_prompt (topic s))] t0]
        @ extra @ [EvGenerateContent name [PText request] t1,
                   EvGenerateContent name [PText (scrapper_prompt (py_slice 9 (- 5) t1))] t2]"
proof -
  from assms obtain s1 w1 where l: "launch env s w = Inr (s1, w1)"
    by (auto simp: extract_information_def ebind_Inr [of "launch env s w"])
  note k = launch_Inr [OF l]
  show ?thesis
  proof (cases "truthy_list (images s)")
    case False
    with assms l k(1-5) show ?thesis
      apply (simp add: extract_information_def Let_def fmt_def)
      apply (simp add: ebind_Inr text_handle_Inr generate_content_Inr)
      apply clarsimp
      done
  next
    case True
    with assms l k(1-5) show ?thesis
      apply (simp add: extract_information_def Let_def fmt_def)
      apply (simp add: ebind_Inr text_handle_Inr generate_content_Inr)
      apply (elim exE conjE)
      apply (frule extract_image_information_Inr [rotated])
       apply simp
      apply (elim exE conjE)
      apply (clarsimp simp: load_loop_Inr)
      done
  qed
qed

lemma launch_photo:
  "launch demo_env photo_session demo_world =
     Inr (photo_session\<lparr>pm := Some (GenerativeModel (text_model photo_session)),
                       im := Some (ImageGenerationModel (image_model photo_session)),
                       em := Some (ImageGenerationModel (edit_model photo_session)),
                       launch_state := True\<rparr>,
          print_line (str ''Model Launch successful!'')
            (log (EvFromPretrained (edit_model photo_session))
            (log (EvFromPretrained (image_model photo_session))
            (log (EvGenerativeModel (text_model photo_session))
            (log (EvGenaiConfigure (str ''key''))
            (log (EvVertexInit (str ''proj'') (str ''us-central1'')) demo_world))))))"
  by (simp add: launch_def photo_session_def new_session_def info_def demo_env_def
      config_get_def external_def ebind_def str_def)

lemma images_demo: "images demo_session = None" "images photo_session = Some [str ''ghee.png'']"
  by (simp_all add: demo_session_def photo_session_def new_session_def)

lemma extract_information_demo:
  "\<exists>s' w'. extract_information demo_env demo_session demo_world = Inr (s', w')"
  by (simp add: extract_information_def launch_demo Let_def text_handle_def
      generate_content_def truthy_list_def images_demo)
     (simp add: demo_env_def)

lemma extract_information_photo:
  "\<exists>s' w'. extract_information demo_env photo_session demo_world = Inr (s', w')"
  by (simp add: extract_information_def launch_photo Let_def text_handle_def
      generate_content_def truthy_list_def images_demo
      extract_image_information_def load_images_def launch_done pil_open_def)
     (simp add: demo_env_def demo_world_def)


lemma rev_drop_rev: "rev (drop k (rev xs)) = take (length xs - k) xs"
  by (simp add: rev_drop)

text \<open>
  Claim C4. After \<open>extract_information\<close> has returned, \<open>text_v1\<close> is the answer of the
  text service to the consolidation request (the consolidation prompt around \<open>text_v0\<close>,
  followed by the product insights when there are any) without its first 9 and its last 5
  characters, whatever the answer is; what is left has the length of the answer less 14,
  and nothing is left of an answer shorter than that.
\<close>

theorem text_v1_is_slice:
  assumes "extract_information env s w = Inr (s', w')"
  shows "\<exists>before name t0 insights t1 t2.
      text_v0 s' = Some t0
    \<and> text_service env before name [PText (consolidation_prompt t0 @ insights)] = Inr t1
    \<and> trace w' = before
         @ [EvGenerateContent name [PText (consolidation_prompt t0 @ insights)] t1,
            EvGenerateContent name [PText (scrapper_prompt (drop 9 (rev (drop 5 (rev t1)))))] t2]
    \<and> text_v1 s' = Some (drop 9 (rev (drop 5 (rev t1))))
    \<and> length (drop 9 (rev (drop 5 (rev t1)))) = length t1 - 14"
  using extract_information_Inr [OF assms]
proof (elim exE conjE)
  fix s1 w1 name t0 t1 t2 extra request
  assume s': "s' = s1\<lparr>text_v0 := Some t0, text_v1 := Some (py_slice 9 (- 5) t1),
                      text_v2 := Some t2\<rparr>"
    and req: "truthy_list (images s) \<longrightarrow>
          (\<exists>paths imgs info. images s = Some paths \<and> load_loop w paths [] = Inr imgs
             \<and> text_service env
                  (trace w1 @ [EvGenerateContent name [PText (analysis_prompt (topic s))] t0])
                  name (PText image_extraction_prompt # map PImage imgs) = Inr info
             \<and> extra = [EvGenerateContent name
                          (PText image_extraction_prompt # map PImage imgs) info]
             \<and> request = consolidation_prompt t0 @ str '' Product insights: '' @ info)"
    and noreq: "\<not> truthy_list (images s) \<longrightarrow> extra = [] \<and> request = consolidation_prompt t0"
    and t1: "text_service env
          (trace w1 @ [EvGenerateContent name [PText (analysis_prompt (topic s))] t0] @ extra)
          name [PText request] = Inr t1"
    and tr: "trace w' = trace w1 @ [EvGenerateContent name [PText (analysis_prompt (topic s))] t0]
        @ extra @ [EvGenerateContent name [PText request] t1,
                   EvGenerateContent name [PText (scrapper_prompt (py_slice 9 (- 5) t1))] t2]"
  from req noreq obtain insights where request: "request = consolidation_prompt t0 @ insights"
    by (cases "truthy_list (images s)") auto
  have slice: "py_slice 9 (- 5) t1 = drop 9 (rev (drop 5 (rev t1)))"
    by (simp add: py_slice_9_5 rev_drop_rev)
  let ?before = "trace w1 @ [EvGenerateContent name [PText (analysis_prompt (topic s))] t0] @ extra"
  from s' have v0: "text_v0 s' = Some t0"
    and v1: "text_v1 s' = Some (drop 9 (rev (drop 5 (rev t1))))"
    by (simp_all add: slice)
  from t1 request
  have ans: "text_service env ?before name [PText (consolidation_prompt t0 @ insights)] = Inr t1"
    by simp
  from tr request slice
  have tr': "trace w' = ?before
         @ [EvGenerateContent name [PText (consolidation_prompt t0 @ insights)] t1,
            EvGenerateContent name [PText (scrapper_prompt (drop 9 (rev (drop 5 (rev t1)))))] t2]"
    by simp
  have len: "length (drop 9 (rev (drop 5 (rev t1)))) = length t1 - 14"
    by simp
  from v0 ans tr' v1 len show ?thesis
    by (intro exI conjI)
qed

theorem text_v1_is_slice_witness:
  "\<exists>s' w'. extract_information demo_env demo_session demo_world = Inr (s', w')
     \<and> text_v1 s' = Some (nl @ str ''{}'')"
proof -
  from extract_information_demo obtain s' w' where
    run: "extract_information demo_env demo_session demo_world = Inr (s', w')"
    by blast
  from text_v1_is_slice [OF run] obtain before name t0 insights t1 where
    t1: "text_service demo_env before name [PText (consolidation_prompt t0 @ insights)] = Inr t1"
    and v1: "text_v1 s' = Some (drop 9 (rev (drop 5 (rev t1))))"
    by blast
  from t1 have "t1 = fenced_answer"
    by (simp add: demo_env_def)
  with v1 have "text_v1 s' = Some (nl @ str ''{}'')"
    by (simp add: fenced_answer_def str_def nl_def)
  with run show ?thesis
    by blast
qed

text \<open>
  Claim C6. When \<open>extract_information\<close> returns and the session has a non-empty list of
  images, every listed file was there and the text requests made are, in this order: the
  analysis of the topic, the description request carrying the loaded images (converted
  from RGBA to RGB), the consolidation request ending in \<open>Product insights:\<close> and the
  answer to the description request, and the scrapper request. When the list is empty or
  absent the requests are the analysis, the consolidation and the scrapper request, each a
  single text.
\<close>

theorem image_description_precedes_summary:
  assumes "extract_information env s w = Inr (s', w')"
  shows "(\<forall>paths. images s = Some paths \<and> paths \<noteq> [] \<longrightarrow>
            (\<forall>p \<in> set paths. files w p \<noteq> None)
          \<and> (\<exists>name t0 info t1 t2.
                filter is_generate_content (trace w') = filter is_generate_content (trace w)
                  @ [EvGenerateContent name [PText (analysis_prompt (topic s))] t0,
                     EvGenerateContent name
                       (PText image_extraction_prompt
                          # map (\<lambda>p. PImage (to_rgb (the (files w p)))) paths) info,
                     EvGenerateContent name
                       [PText (consolidation_prompt t0 @ str '' Product insights: '' @ info)] t1,
                     EvGenerateContent name
                       [PText (scrapper_prompt (py_slice 9 (- 5) t1))] t2]))
     \<and> (images s = None \<or> images s = Some [] \<longrightarrow>
          (\<exists>name t0 t1 t2.
                filter is_generate_content (trace w') = filter is_generate_content (trace w)
                  @ [EvGenerateContent name [PText (analysis_prompt (topic s))] t0,
                     EvGenerateContent name [PText (consolidation_prompt t0)] t1,
                     EvGenerateContent name
                       [PText (scrapper_prompt (py_slice 9 (- 5) t1))] t2]))"
  using extract_information_Inr [OF assms]
proof (elim exE conjE)
  fix s1 w1 name t0 t1 t2 extra request
  assume l: "launch env s w = Inr (s1, w1)"
    and req: "truthy_list (images s) \<longrightarrow>
          (\<exists>paths imgs info. images s = Some paths \<and> load_loop w paths [] = Inr imgs
             \<and> text_service env
                  (trace w1 @ [EvGenerateContent name [PText (analysis_prompt (topic s))] t0])
                  name (PText image_extraction_prompt # map PImage imgs) = Inr info
             \<and> extra = [EvGenerateContent name
                          (PText image_extraction_prompt # map PImage imgs) info]
             \<and> request = consolidation_prompt t0 @ str '' Product insights: '' @ info)"
    and noreq: "\<not> truthy_list (images s) \<longrightarrow> extra = [] \<and> request = consolidation_prompt t0"
    and tr: "trace w' = trace w1 @ [EvGenerateContent name [PText (analysis_prompt (topic s))] t0]
        @ extra @ [EvGenerateContent name [PText request] t1,
                   EvGenerateContent name [PText (scrapper_prompt (py_slice 9 (- 5) t1))] t2]"
  from launch_Inr(6) [OF l] obtain pre where
    pre: "trace w1 = trace w @ pre" "filter is_generate_content pre = []"
    by blast
  have with_images: "(\<forall>p \<in> set paths. files w p \<noteq> None)
          \<and> (\<exists>name t0 info t1 t2.
                filter is_generate_content (trace w') = filter is_generate_content (trace w)
                  @ [EvGenerateContent name [PText (analysis_prompt (topic s))] t0,
                     EvGenerateContent name
                       (PText image_extraction_prompt
                          # map (\<lambda>p. PImage (to_rgb (the (files w p)))) paths) info,
                     EvGenerateContent name
                       [PText (consolidation_prompt t0 @ str '' Product insights: '' @ info)] t1,
                     EvGenerateContent name
                       [PText (scrapper_prompt (py_slice 9 (- 5) t1))] t2])"
    if "images s = Some paths" and "paths \<noteq> []" for paths
  proof -
    from that have "truthy_list (images s)"
      by (simp add: truthy_list_def)
    with req that obtain imgs info where
      imgs: "load_loop w paths [] = Inr imgs"
      and extra: "extra = [EvGenerateContent name
                          (PText image_extraction_prompt # map PImage imgs) info]"
      and request: "request = consolidation_prompt t0 @ str '' Product insights: '' @ info"
      by auto
    from imgs have ex: "\<forall>p \<in> set paths. files w p \<noteq> None"
      and "imgs = map (\<lambda>p. to_rgb (the (files w p))) paths"
      by (simp_all add: load_loop_Inr)
    with tr pre extra request
    have "filter is_generate_content (trace w') = filter is_generate_content (trace w)
                  @ [EvGenerateContent name [PText (analysis_prompt (topic s))] t0,
                     EvGenerateContent name
                       (PText image_extraction_prompt
                          # map (\<lambda>p. PImage (to_rgb (the (files w p)))) paths) info,
                     EvGenerateContent name
                       [PText (consolidation_prompt t0 @ str '' Product insights: '' @ info)] t1,
                     EvGenerateContent name
                       [PText (scrapper_prompt (py_slice 9 (- 5) t1))] t2]"
      by (simp add: comp_def)
    with ex show ?thesis
      by blast
  qed
  have without: "\<exists>name t0 t1 t2.
                filter is_generate_content (trace w') = filter is_generate_content (trace w)
                  @ [EvGenerateContent name [PText (analysis_prompt (topic s))] t0,
                     EvGenerateContent name [PText (consolidation_prompt t0)] t1,
                     EvGenerateContent name
                       [PText (scrapper_prompt (py_slice 9 (- 5) t1))] t2]"
    if "images s = None \<or> images s = Some []"
  proof -
    from that have "\<not> truthy_list (images s)"
      by (auto simp: truthy_list_def)
    with noreq have "extra = []" and "request = consolidation_prompt t0"
      by simp_all
    with tr pre
    have "filter is_generate_content (trace w') = filter is_generate_content (trace w)
                  @ [EvGenerateContent name [PText (analysis_prompt (topic s))] t0,
                     EvGenerateContent name [PText (consolidation_prompt t0)] t1,
                     EvGenerateContent name
                       [PText (scrapper_prompt (py_slice 9 (- 5) t1))] t2]"
      by simp
    then show ?thesis
      by blast
  qed
  from with_images without show ?thesis
    by blast
qed

theorem image_description_precedes_summary_witness:
  "(\<exists>s' w'. extract_information demo_env photo_session demo_world = Inr (s', w')
      \<and> images photo_session = Some [str ''ghee.png'']
      \<and> (\<exists>name t0 info t1 t2.
            filter is_generate_content (trace w') =
              [EvGenerateContent name [PText (analysis_prompt (topic photo_session))] t0,
               EvGenerateContent name
                 [PText image_extraction_prompt, PImage (Image (str ''RGB'') 0)] info,
               EvGenerateContent name
                 [PText (consolidation_prompt t0 @ str '' Product insights: '' @ info)] t1,
               EvGenerateContent name [PText (scrapper_prompt (py_slice 9 (- 5) t1))] t2]))
   \<and> (\<exists>s' w'. extract_information demo_env demo_session demo_world = Inr (s', w')
      \<and> images demo_session = None
      \<and> (\<exists>name t0 t1 t2.
            filter is_generate_content (trace w') =
              [EvGenerateContent name [PText (analysis_prompt (topic demo_session))] t0,
               EvGenerateContent name [PText (consolidation_prompt t0)] t1,
               EvGenerateContent name [PText (scrapper_prompt (py_slice 9 (- 5) t1))] t2]))"
proof -
  from extract_information_photo obtain s' w' where
    photo: "extract_information demo_env photo_session demo_world = Inr (s', w')"
    by blast
  from extract_information_demo obtain s'' w'' where
    plain: "extract_information demo_env demo_session demo_world = Inr (s'', w'')"
    by blast
  have ghee: "to_rgb (the (files demo_world (str ''ghee.png''))) = Image (str ''RGB'') 0"
    by (simp add: demo_world_def to_rgb_def convert_def)
  have tr0: "trace demo_world = []"
    by (simp add: demo_world_def)
  from image_description_precedes_summary [OF photo] images_demo(2)
  have "\<exists>name t0 info t1 t2.
            filter is_generate_content (trace w') =
              [EvGenerateContent name [PText (analysis_prompt (topic photo_session))] t0,
               EvGenerateContent name
                 [PText image_extraction_prompt, PImage (Image (str ''RGB'') 0)] info,
               EvGenerateContent name
                 [PText (consolidation_prompt t0 @ str '' Product insights: '' @ info)] t1,
               EvGenerateContent name [PText (scrapper_prompt (py_slice 9 (- 5) t1))] t2]"
    by (simp add: ghee tr0)
  with photo images_demo(2) have first: "\<exists>s' w'. extract_information demo_env photo_session demo_world = Inr (s', w')
      \<and> images photo_session = Some [str ''ghee.png'']
      \<and> (\<exists>name t0 info t1 t2.
            filter is_generate_content (trace w') =
              [EvGenerateContent name [PText (analysis_prompt (topic photo_session))] t0,
               EvGenerateContent name
                 [PText image_extraction_prompt, PImage (Image (str ''RGB'') 0)] info,
               EvGenerateContent name
                 [PText (consolidation_prompt t0 @ str '' Product insights: '' @ info)] t1,
               EvGenerateContent name [PText (scrapper_prompt (py_slice 9 (- 5) t1))] t2])"
    by blast
  from image_description_precedes_summary [OF plain] images_demo(1)
  have "\<exists>name t0 t1 t2.
            filter is_generate_content (trace w'') =
              [EvGenerateContent name [PText (analysis_prompt (topic demo_session))] t0,
               EvGenerateContent name [PText (consolidation_prompt t0)] t1,
               EvGenerateContent name [PText (scrapper_prompt (py_slice 9 (- 5) t1))] t2]"
    by (simp add: tr0)
  with plain images_demo(1) first show ?thesis
    by blast
qed

subsection \<open>Repair\<close>

lemma fix_retest_Inr:
  assumes "fix_retest env s w = Inr (s', w')"
  shows "\<exists>name ename base lags img rest.
      pm s = Some (GenerativeModel name) \<and> em s = Some (ImageGenerationModel ename)
    \<and> files w temp_img_path = Some base
    \<and> s' = s\<lparr>img_response_v3 := Some (img # rest)\<rparr>
    \<and> edit_service env
          (trace w @ [EvGenerateContent name
                        [PText (lags_prompt (fmt (text_v3 s))), PImage base] lags])
          ename base (refix_prompt lags) (str ''inpainting-insert'') (str ''background'')
        = Inr (img # rest)
    \<and> trace w' = trace w
         @ [EvGenerateContent name [PText (lags_prompt (fmt (text_v3 s))), PImage base] lags,
            EvEditImage ename base (refix_prompt lags) (str ''inpainting-insert'')
              (str ''background'') (img # rest),
            EvSave temp_img_path img]
    \<and> files w' = (files w)(temp_img_path \<mapsto> img)"
  using assms
  apply (simp add: fix_retest_def Let_def)
  apply (simp add: ebind_Inr identify_lags_Inr image_handle_Inr load_from_file_Inr
      edit_image_Inr response_first_Inr save_temp_Inr save_output_Inr)
  apply clarsimp
  done

lemma fix_image_Inr:
  assumes "fix_image env retest s w = Inr (p, s', w')"
  shows "\<exists>name ename base lags img rest.
      pm s = Some (GenerativeModel name) \<and> em s = Some (ImageGenerationModel ename)
    \<and> files w temp_img_path = Some base
    \<and> p = output_img_path env (topic s)
    \<and> img_response_v2 s' = Some (img # rest)
    \<and> edit_service env
          (trace w @ [EvGenerateContent name
                        [PText (lags_prompt (fmt (text_v3 s))), PImage base] lags])
          ename base (fix_prompt lags) (str ''inpainting-insert'') (str ''background'')
        = Inr (img # rest)
    \<and> (\<not> retest \<longrightarrow>
          s' = s\<lparr>img_response_v2 := Some (img # rest)\<rparr>
        \<and> trace w' = trace w
           @ [EvGenerateContent name [PText (lags_prompt (fmt (text_v3 s))), PImage base] lags,
              EvEditImage ename base (fix_prompt lags) (str ''inpainting-insert'')
                (str ''background'') (img # rest),
              EvSave temp_img_path img, EvSave p img]
        \<and> files w' = (files w)(temp_img_path \<mapsto> img, p \<mapsto> img))
    \<and> (retest \<longrightarrow>
          (\<exists>lags2 img3 rest3.
            s' = s\<lparr>img_response_v2 := Some (img # rest), img_response_v3 := Some (img3 # rest3)\<rparr>
          \<and> edit_service env
                (trace w
                 @ [EvGenerateContent name
                      [PText (lags_prompt (fmt (text_v3 s))), PImage base] lags,
                    EvEditImage ename base (fix_prompt lags) (str ''inpainting-insert'')
                      (str ''background'') (img # rest),
                    EvSave temp_img_path img,
                    EvGenerateContent name
                      [PText (lags_prompt (fmt (text_v3 s))), PImage img] lags2])
                ename img (refix_prompt lags2) (str ''inpainting-insert'') (str ''background'')
              = Inr (img3 # rest3)
          \<and> trace w' = trace w
             @ [EvGenerateContent name [PText (lags_prompt (fmt (text_v3 s))), PImage base] lags,
                EvEditImage ename base (fix_prompt lags) (str ''inpainting-insert'')
                  (str ''background'') (img # rest),
                EvSave temp_img_path img,
                EvGenerateContent name [PText (lags_prompt (fmt (text_v3 s))), PImage img] lags2,
                EvEditImage ename img (refix_prompt lags2) (str ''inpainting-insert'')
                  (str ''background'') (img3 # rest3),
                EvSave temp_img_path img3, EvSave p img]
          \<and> files w' = (files w)(temp_img_path \<mapsto> img3, p \<mapsto> img)))"
proof (cases retest)
  case False
  with assms show ?thesis
    apply (simp add: fix_image_def Let_def)
    apply (simp add: ebind_Inr identify_lags_Inr image_handle_Inr load_from_file_Inr
      edit_image_Inr response_first_Inr save_temp_Inr save_output_Inr)
    apply clarsimp
    done
next
  case True
  with assms show ?thesis
    apply (simp add: fix_image_def Let_def)
    apply (simp add: ebind_Inr identify_lags_Inr image_handle_Inr load_from_file_Inr
      edit_image_Inr response_first_Inr save_temp_Inr save_output_Inr)
    apply (elim exE conjE)
    apply (frule fix_retest_Inr)
    apply (elim exE conjE)
    apply clarsimp
    done
qed

subsection \<open>Runs that return\<close>

lemma reliableD:
  assumes "reliable env"
  shows "vertexai_init env tr project location = None"
    and "genai_configure env tr api_key = None"
    and "new_generative_model env tr name = None"
    and "from_pretrained env tr name = None"
    and "fs_fault env tr ev = None"
  using assms by (simp_all add: reliable_def)

lemma reliable_text: "reliable env \<Longrightarrow> \<exists>t. text_service env tr name parts = Inr t"
  by (simp add: reliable_def)

lemma reliable_image:
  "reliable env \<Longrightarrow> \<exists>img rest. image_service env tr name prompt ratio = Inr (img # rest)"
  by (simp add: reliable_def)

lemma reliable_edit:
  "reliable env \<Longrightarrow>
     \<exists>img rest. edit_service env tr name base prompt edit_mode mask_mode = Inr (img # rest)"
  by (simp add: reliable_def)

lemma reliable_demo: "reliable demo_env"
  by (simp add: reliable_def demo_env_def)

lemma launch_returns:
  assumes "reliable env" and "configured s"
  shows "\<exists>s1 w1. launch env s w = Inr (s1, w1)"
  using assms
  by (auto simp: launch_def configured_def config_get_def external_def reliableD Let_def)

lemma create_text_prompt_returns:
  assumes "reliable env" and "pm s = Some (GenerativeModel name)"
  shows "\<exists>s' w'. create_text_prompt env s w = Inr (s', w')"
  using reliable_text [OF assms(1), of "trace w" name "[PText (text_prompt (fmt (text_v2 s)))]"]
    assms(2)
  by (auto simp: create_text_prompt_Inr)

lemma generate_image_returns:
  assumes "reliable env" and "im s = Some (ImageGenerationModel name)"
  shows "\<exists>p s' w'. generate_image env s w = Inr (p, s', w')"
proof -
  from reliable_image [OF assms(1)] obtain img rest where
    "image_service env (trace w) name (image_prompt (fmt (text_v3 s)))
       (map_option aspect_str (aspect_ratio s)) = Inr (img # rest)"
    by blast
  with assms show ?thesis
    by (cases "aspect_ratio s")
       (simp_all add: generate_image_def Let_def truthy_aspect_iff image_handle_def
        generate_images_def path_exists_def os_remove_def save_image_temp save_image_output external_def
        reliableD response_first_def first_image_def split: option.splits)
qed

lemma identify_lags_returns:
  assumes "reliable env" and "pm s = Some (GenerativeModel name)"
    and "files w temp_img_path = Some base"
  shows "\<exists>t w'. identify_lags env s w = Inr (t, s, w')"
  using reliable_text [OF assms(1), of "trace w" name
      "[PText (lags_prompt (fmt (text_v3 s))), PImage base]"] assms(2,3)
  by (auto simp: identify_lags_Inr)


lemma fix_retest_returns:
  assumes "reliable env" and "pm s = Some (GenerativeModel name)"
    and "em s = Some (ImageGenerationModel ename)" and "files w temp_img_path = Some base"
  shows "\<exists>s' w'. fix_retest env s w = Inr (s', w')"
proof -
  from reliable_text [OF assms(1)] obtain lags where
    a: "text_service env (trace w) name
          [PText (lags_prompt (fmt (text_v3 s))), PImage base] = Inr lags"
    by blast
  from reliable_edit [OF assms(1)] obtain img rest where
    b: "edit_service env
          (trace w @ [EvGenerateContent name
             [PText (lags_prompt (fmt (text_v3 s))), PImage base] lags])
          ename base (refix_prompt lags) (str ''inpainting-insert'') (str ''background'')
        = Inr (img # rest)"
    by blast
  from assms a b show ?thesis
    by (simp add: fix_retest_def identify_lags_def Let_def text_handle_def pil_open_def
        generate_content_def image_handle_def load_from_file_def edit_image_def
        response_first_def first_image_def save_image_temp save_image_output external_def reliableD)
qed

lemma fix_image_returns:
  assumes "reliable env" and "pm s = Some (GenerativeModel name)"
    and "em s = Some (ImageGenerationModel ename)" and "files w temp_img_path = Some base"
    and "spec_basename env (topic s) \<noteq> []"
  shows "\<exists>p s' w'. fix_image env retest s w = Inr (p, s', w')"
proof -
  from reliable_text [OF assms(1)] obtain lags where
    a: "text_service env (trace w) name
          [PText (lags_prompt (fmt (text_v3 s))), PImage base] = Inr lags"
    by blast
  from reliable_edit [OF assms(1)] obtain img rest where
    b: "edit_service env
          (trace w @ [EvGenerateContent name
             [PText (lags_prompt (fmt (text_v3 s))), PImage base] lags])
          ename base (fix_prompt lags) (str ''inpainting-insert'') (str ''background'')
        = Inr (img # rest)"
    by blast
  show ?thesis
  proof (cases retest)
    case False
    with assms a b show ?thesis
      by (simp add: fix_image_def identify_lags_def Let_def text_handle_def pil_open_def
        generate_content_def image_handle_def load_from_file_def edit_image_def
        response_first_def first_image_def save_image_temp save_image_output external_def reliableD)
  next
    case True
    define S where "S = s\<lparr>img_response_v2 := Some (img # rest)\<rparr>"
    define W where "W = print_line (str ''Image v2 generated!'')
      (log (EvSave temp_img_path img)
        ((log (EvEditImage ename base (fix_prompt lags) (str ''inpainting-insert'')
                 (str ''background'') (img # rest))
           (print_line (str ''Lags identified: '' @ lags)
             (log (EvGenerateContent name
                [PText (lags_prompt (fmt (text_v3 s))), PImage base] lags) w)))
         \<lparr>files := (files w)(temp_img_path \<mapsto> img)\<rparr>))"
    have "pm S = Some (GenerativeModel name)" and "em S = Some (ImageGenerationModel ename)"
      and "files W temp_img_path = Some img"
      using assms by (simp_all add: S_def W_def)
    from fix_retest_returns [OF assms(1) this] obtain s3 w5 where
      again: "fix_retest env S W = Inr (s3, w5)"
      by blast
    from fix_retest_Inr [OF again] have "img_response_v2 s3 = Some (img # rest)"
      and "topic s3 = topic s"
      by (auto simp: S_def)
    with True assms a b again [unfolded S_def W_def] show ?thesis
      by (simp add: fix_image_def identify_lags_def Let_def text_handle_def pil_open_def
        generate_content_def image_handle_def load_from_file_def edit_image_def
        response_first_def first_image_def save_image_temp save_image_output external_def reliableD)
  qed
qed

lemma load_loop_files:
  "\<forall>p \<in> set paths. files w p \<noteq> None \<Longrightarrow>
     load_loop w paths acc = Inr (acc @ map (\<lambda>p. to_rgb (the (files w p))) paths)"
  by (simp add: load_loop_Inr)

lemma extract_information_returns:
  assumes "reliable env" and "configured s"
    and "\<forall>paths. images s = Some paths \<longrightarrow> (\<forall>p \<in> set paths. files w p \<noteq> None)"
  shows "\<exists>s' w'. extract_information env s w = Inr (s', w')"
proof -
  from assms(1) obtain answer where
    answer: "\<And>tr name parts. text_service env tr name parts = Inr (answer tr name parts)"
    unfolding reliable_def by metis
  from launch_returns [OF assms(1,2)] obtain s1 w1 where l: "launch env s w = Inr (s1, w1)"
    by blast
  from assms(2) have fresh: "\<not> launch_state s"
    by (simp add: configured_def)
  from launch_Inr(7) [OF l fresh] obtain name where pm: "pm s1 = Some (GenerativeModel name)"
    by blast
  note k = launch_Inr(1,3,5) [OF l]
  show ?thesis
  proof (cases "images s")
    case None
    with l pm k show ?thesis
      by (simp add: extract_information_def Let_def text_handle_def generate_content_def
          answer truthy_list_def)
  next
    case (Some paths)
    with assms(3) have "\<forall>p \<in> set paths. files w p \<noteq> None"
      by simp
    with Some l pm k show ?thesis
      by (simp add: extract_information_def Let_def text_handle_def generate_content_def
          answer truthy_list_def extract_image_information_def load_images_def launch_done
          load_loop_files)
  qed
qed

lemma extract_information_keeps:
  assumes "extract_information env s w = Inr (s', w')"
  shows "topic s' = topic s" and "files w' = files w"
    and "\<not> launch_state s \<Longrightarrow> \<exists>name. pm s' = Some (GenerativeModel name)"
    and "\<not> launch_state s \<Longrightarrow> \<exists>name. im s' = Some (ImageGenerationModel name)"
    and "\<not> launch_state s \<Longrightarrow> \<exists>name. em s' = Some (ImageGenerationModel name)"
proof -
  from extract_information_Inr [OF assms] obtain s1 w1 t0 t1 t2 where
    l: "launch env s w = Inr (s1, w1)"
    and s': "s' = s1\<lparr>text_v0 := Some t0, text_v1 := Some (py_slice 9 (- 5) t1),
                      text_v2 := Some t2\<rparr>"
    and f: "files w' = files w"
    by blast
  from s' launch_Inr(2) [OF l] show "topic s' = topic s"
    by simp
  from f show "files w' = files w" .
  show "\<exists>name. pm s' = Some (GenerativeModel name)" if "\<not> launch_state s"
    using launch_Inr(7) [OF l that] s' by simp
  show "\<exists>name. im s' = Some (ImageGenerationModel name)" if "\<not> launch_state s"
    using launch_Inr(8) [OF l that] s' by simp
  show "\<exists>name. em s' = Some (ImageGenerationModel name)" if "\<not> launch_state s"
    using launch_Inr(9) [OF l that] s' by simp
qed

lemma execute_Inr:
  "execute env QC s w = Inr (p, s', w') \<longleftrightarrow>
     (\<exists>s1 w1 s2 w2 tp s3 w3.
        extract_information env s w = Inr (s1, w1)
      \<and> create_text_prompt env s1 w1 = Inr (s2, w2)
      \<and> generate_image env s2 w2 = Inr (tp, s3, w3)
      \<and> fix_image env QC s3 w3 = Inr (p, s', w'))"
  by (simp add: execute_def ebind_Inr)

lemma execute_reaches_repair:
  assumes "reliable env" and "configured s"
    and "\<forall>paths. images s = Some paths \<longrightarrow> (\<forall>p \<in> set paths. files w p \<noteq> None)"
  shows "\<exists>s1 w1 s2 w2 tp s3 w3 name ename base.
      extract_information env s w = Inr (s1, w1)
    \<and> create_text_prompt env s1 w1 = Inr (s2, w2)
    \<and> generate_image env s2 w2 = Inr (tp, s3, w3)
    \<and> pm s3 = Some (GenerativeModel name) \<and> em s3 = Some (ImageGenerationModel ename)
    \<and> files w3 temp_img_path = Some base \<and> topic s3 = topic s"
proof -
  from assms(2) have fresh: "\<not> launch_state s"
    by (simp add: configured_def)
  from extract_information_returns [OF assms] obtain s1 w1 where
    a: "extract_information env s w = Inr (s1, w1)"
    by blast
  from extract_information_keeps(3-5) [OF a fresh] obtain name iname ename where
    h1: "pm s1 = Some (GenerativeModel name)" "im s1 = Some (ImageGenerationModel iname)"
      "em s1 = Some (ImageGenerationModel ename)"
    by blast
  from create_text_prompt_returns [OF assms(1) h1(1)] obtain s2 w2 where
    b: "create_text_prompt env s1 w1 = Inr (s2, w2)"
    by blast
  with h1 have h2: "pm s2 = Some (GenerativeModel name)" "im s2 = Some (ImageGenerationModel iname)"
      "em s2 = Some (ImageGenerationModel ename)" and t2: "topic s2 = topic s1"
    by (auto simp: create_text_prompt_Inr)
  from generate_image_returns [OF assms(1) h2(2)] obtain tp s3 w3 where
    c: "generate_image env s2 w2 = Inr (tp, s3, w3)"
    by blast
  from generate_image_Inr [OF c] h2 obtain img where
    h3: "pm s3 = Some (GenerativeModel name)" "em s3 = Some (ImageGenerationModel ename)"
      "files w3 temp_img_path = Some img" and t3: "topic s3 = topic s2"
    by auto
  from t2 t3 extract_information_keeps(1) [OF a] have "topic s3 = topic s"
    by simp
  with a b c h3 show ?thesis
    by blast
qed

lemma execute_returns:
  assumes "reliable env" and "configured s"
    and "\<forall>paths. images s = Some paths \<longrightarrow> (\<forall>p \<in> set paths. files w p \<noteq> None)"
    and "spec_basename env (topic s) \<noteq> []"
  shows "\<exists>p s' w'. execute env QC s w = Inr (p, s', w')"
proof -
  from execute_reaches_repair [OF assms(1-3)] obtain s1 w1 s2 w2 tp s3 w3 name ename base where
    stages: "extract_information env s w = Inr (s1, w1)"
      "create_text_prompt env s1 w1 = Inr (s2, w2)"
      "generate_image env s2 w2 = Inr (tp, s3, w3)"
    and ready: "pm s3 = Some (GenerativeModel name)" "em s3 = Some (ImageGenerationModel ename)"
      "files w3 temp_img_path = Some base" "spec_basename env (topic s3) \<noteq> []"
    using assms(4) by auto
  from fix_image_returns [OF assms(1) ready] obtain p s' w' where
    "fix_image env QC s3 w3 = Inr (p, s', w')"
    by blast
  with stages show ?thesis
    unfolding execute_Inr by blast
qed

lemma execute_fix_image:
  assumes "execute env QC s w = Inr (p, s', w')"
  shows "\<exists>s3 w3. fix_image env QC s3 w3 = Inr (p, s', w') \<and> topic s3 = topic s"
proof -
  from assms obtain s1 w1 s2 w2 tp s3 w3 where
    a: "extract_information env s w = Inr (s1, w1)"
    and b: "create_text_prompt env s1 w1 = Inr (s2, w2)"
    and c: "generate_image env s2 w2 = Inr (tp, s3, w3)"
    and d: "fix_image env QC s3 w3 = Inr (p, s', w')"
    unfolding execute_Inr by blast
  from b have "topic s2 = topic s1"
    by (auto simp: create_text_prompt_Inr)
  moreover from generate_image_Inr [OF c] have "topic s3 = topic s2"
    by auto
  ultimately have "topic s3 = topic s"
    using extract_information_keeps(1) [OF a] by simp
  with d show ?thesis
    by blast
qed

lemma configured_demo: "configured demo_session" "configured bang_session"
  by (simp_all add: configured_def demo_session_def bang_session_def new_session_def info_def
      str_def)

lemma fix_image_output_file:
  assumes "fix_image env retest s w = Inr (p, s', w')"
  shows "p = output_img_path env (topic s)"
    and "\<exists>img rest. img_response_v2 s' = Some (img # rest) \<and> files w' p = Some img"
  using fix_image_Inr [OF assms] by (cases retest; auto)+

lemma demo_stem:
  "spec_basename env (topic demo_session) \<noteq> []"
  "spec_basename env (topic wide_session) \<noteq> []"
  by (simp_all add: wide_session_def demo_session_def new_session_def diwali_basename)





subsection \<open>The image that is saved last\<close>

lemma fix_image_twice:
  assumes "fix_image env True s w = Inr (p, s', w')"
  shows "\<exists>name ename base lags img rest lags2 img3 rest3.
      p = output_img_path env (topic s)
    \<and> s' = s\<lparr>img_response_v2 := Some (img # rest), img_response_v3 := Some (img3 # rest3)\<rparr>
    \<and> edit_service env
          (trace w @ [EvGenerateContent name
                        [PText (lags_prompt (fmt (text_v3 s))), PImage base] lags])
          ename base (fix_prompt lags) (str ''inpainting-insert'') (str ''background'')
        = Inr (img # rest)
    \<and> edit_service env
                (trace w
                 @ [EvGenerateContent name
                      [PText (lags_prompt (fmt (text_v3 s))), PImage base] lags,
                    EvEditImage ename base (fix_prompt lags) (str ''inpainting-insert'')
                      (str ''background'') (img # rest),
                    EvSave temp_img_path img,
                    EvGenerateContent name
                      [PText (lags_prompt (fmt (text_v3 s))), PImage img] lags2])
                ename img (refix_prompt lags2) (str ''inpainting-insert'') (str ''background'')
              = Inr (img3 # rest3)
    \<and> files w' = (files w)(temp_img_path \<mapsto> img3, p \<mapsto> img)"
  using fix_image_Inr [OF assms]
  apply simp
  apply (elim exE conjE)
  apply (intro exI conjI)
       apply assumption+
  done

lemma demo_edit_answer:
  "edit_service demo_env tr name base prompt edit_mode mask_mode = Inr xs \<longleftrightarrow>
     xs = [Image (str ''RGB'') (length tr)]"
  by (auto simp: demo_env_def)

lemma demo_output_path:
  "output_img_path env (topic demo_session)
     = str ''images/output/Diwali_Sale_on_Premium_Ghee_1kg_Jar.jpg''"
  "str ''images/output/Diwali_Sale_on_Premium_Ghee_1kg_Jar.jpg'' \<noteq> temp_img_path"
  by (simp_all add: output_img_path_spec demo_session_def new_session_def diwali_basename
      temp_img_path_def)
     (simp_all add: str_def)

text \<open>
  Claim C1. The claim asks that, with the quality-check flag set, the image stored at the
  output path be the result of the second edit. Line 197 saves \<open>img_response_v2\<close>, the
  result of the first edit, whether or not the second pass has run. In the run below the
  two edits give different images: the second is left at the temporary path only, and the
  output path holds the first.
\<close>

theorem retest_output_is_first_edit:
  "\<exists>p s' w' first second.
      execute demo_env True demo_session demo_world = Inr (p, s', w')
    \<and> img_response_v2 s' = Some [first] \<and> img_response_v3 s' = Some [second]
    \<and> first \<noteq> second
    \<and> files w' temp_img_path = Some second
    \<and> files w' p = Some first"
proof -
  from execute_returns [OF reliable_demo configured_demo(1) _ demo_stem(1), of demo_world True]
    images_demo(1)
  obtain p s' w' where run: "execute demo_env True demo_session demo_world = Inr (p, s', w')"
    by auto
  from execute_fix_image [OF run] obtain s3 w3 where
    rep: "fix_image demo_env True s3 w3 = Inr (p, s', w')"
    and t: "topic s3 = topic demo_session"
    by blast
  from fix_image_twice [OF rep] show ?thesis
  proof (elim exE conjE)
    fix name ename base lags img rest lags2 img3 rest3
    assume p: "p = output_img_path demo_env (topic s3)"
      and s': "s' = s3\<lparr>img_response_v2 := Some (img # rest),
                        img_response_v3 := Some (img3 # rest3)\<rparr>"
      and e1: "edit_service demo_env
          (trace w3 @ [EvGenerateContent name
                        [PText (lags_prompt (fmt (text_v3 s3))), PImage base] lags])
          ename base (fix_prompt lags) (str ''inpainting-insert'') (str ''background'')
        = Inr (img # rest)"
      and e2: "edit_service demo_env
                (trace w3
                 @ [EvGenerateContent name
                      [PText (lags_prompt (fmt (text_v3 s3))), PImage base] lags,
                    EvEditImage ename base (fix_prompt lags) (str ''inpainting-insert'')
                      (str ''background'') (img # rest),
                    EvSave temp_img_path img,
                    EvGenerateContent name
                      [PText (lags_prompt (fmt (text_v3 s3))), PImage img] lags2])
                ename img (refix_prompt lags2) (str ''inpainting-insert'') (str ''background'')
              = Inr (img3 # rest3)"
      and fs: "files w' = (files w3)(temp_img_path \<mapsto> img3, p \<mapsto> img)"
    from e1 have first: "img = Image (str ''RGB'') (length (trace w3) + 1)" "rest = []"
      by (simp_all add: demo_edit_answer)
    from e2 have second: "img3 = Image (str ''RGB'') (length (trace w3) + 4)" "rest3 = []"
      by (simp_all add: demo_edit_answer)
    from first second have differ: "img \<noteq> img3"
      by simp
    from p t demo_output_path have "p \<noteq> temp_img_path"
      by simp
    with fs have f1: "files w' temp_img_path = Some img3" and f2: "files w' p = Some img"
      by simp_all
    from s' first(2) second(2) have v2: "img_response_v2 s' = Some [img]"
      and v3: "img_response_v3 s' = Some [img3]"
      by simp_all
    from run v2 v3 differ f1 f2 show ?thesis
      by blast
  qed
qed


subsection \<open>Errors\<close>

lemma config_get_Inl:
  "config_get s k = Inl e \<longleftrightarrow> map_of (CONFIGS s) k = None \<and> e = KeyError k"
  by (auto simp: config_get_def split: option.splits)

lemma external_Inl: "external ro ev w = Inl e \<longleftrightarrow> ro = Some e"
  by (auto simp: external_def split: option.splits)

lemma pil_open_Inl: "pil_open w p = Inl e \<longleftrightarrow> files w p = None \<and> e = FileNotFoundError p"
  by (auto simp: pil_open_def split: option.splits)

lemma load_from_file_Inl:
  "load_from_file w p = Inl e \<longleftrightarrow> files w p = None \<and> e = FileNotFoundError p"
  by (auto simp: load_from_file_def split: option.splits)

lemma os_remove_Inl:
  "os_remove env p w = Inl e \<longleftrightarrow>
     (files w p = None \<and> e = FileNotFoundError p)
   \<or> (files w p \<noteq> None \<and> fs_fault env (trace w) (EvRemove p) = Some e)"
  by (auto simp: os_remove_def external_Inl split: option.splits)

lemma save_image_Inl:
  "save_image env img p w = Inl e \<longleftrightarrow>
     (splitext_ext p = [] \<and> e = ValueError (str ''unknown file extension: ''))
   \<or> (splitext_ext p \<noteq> [] \<and> splitext_ext p \<noteq> str ''.jpg''
        \<and> pil_other env (splitext_ext p) = Some e)
   \<or> (splitext_ext p \<noteq> []
        \<and> (splitext_ext p = str ''.jpg'' \<or> pil_other env (splitext_ext p) = None)
        \<and> fs_fault env (trace w) (EvSave p img) = Some e)"
  by (auto simp: save_image_def Let_def ebind_Inl external_Inl split: option.splits)

lemma text_handle_Inl:
  "text_handle h = Inl e \<longleftrightarrow> (\<forall>name. h \<noteq> Some (GenerativeModel name)) \<and> e = AttributeError"
  by (auto simp: text_handle_def split: option.splits handle.splits)

lemma image_handle_Inl:
  "image_handle h = Inl e \<longleftrightarrow>
     (\<forall>name. h \<noteq> Some (ImageGenerationModel name)) \<and> e = AttributeError"
  by (auto simp: image_handle_def split: option.splits handle.splits)

lemma response_first_Inl:
  "response_first r = Inl e \<longleftrightarrow> (r = None \<and> e = AttributeError) \<or> (r = Some [] \<and> e = IndexError)"
  by (auto simp: response_first_def first_image_def split: option.splits list.splits)

lemma generate_content_Inl:
  "generate_content env name parts w = Inl e \<longleftrightarrow> text_service env (trace w) name parts = Inl e"
  by (auto simp: generate_content_def split: sum.splits)

lemma generate_images_Inl:
  "generate_images env name prompt ratio w = Inl e \<longleftrightarrow>
     image_service env (trace w) name prompt ratio = Inl e"
  by (auto simp: generate_images_def split: sum.splits)

lemma edit_image_Inl:
  "edit_image env name base prompt edit_mode mask_mode w = Inl e \<longleftrightarrow>
     edit_service env (trace w) name base prompt edit_mode mask_mode = Inl e"
  by (auto simp: edit_image_def split: sum.splits)

lemma launch_Inl:
  "launch env s w = Inl e \<longleftrightarrow>
     \<not> launch_state s
   \<and> (config_get s (str ''PROJECT_ID'') = Inl e
       \<or> (\<exists>project. config_get s (str ''PROJECT_ID'') = Inr project
         \<and> (config_get s (str ''LOCATION'') = Inl e
         \<or> (\<exists>location. config_get s (str ''LOCATION'') = Inr location
           \<and> (external (vertexai_init env (trace w) project location) (EvVertexInit project location) w = Inl e
           \<or> (\<exists>w1. external (vertexai_init env (trace w) project location) (EvVertexInit project location) w = Inr w1
             \<and> (config_get s (str ''API_KEY'') = Inl e
             \<or> (\<exists>api_key. config_get s (str ''API_KEY'') = Inr api_key
               \<and> (external (genai_configure env (trace w1) api_key) (EvGenaiConfigure api_key) w1 = Inl e
               \<or> (\<exists>w2. external (genai_configure env (trace w1) api_key) (EvGenaiConfigure api_key) w1 = Inr w2
                 \<and> (external (new_generative_model env (trace w2) (text_model s)) (EvGenerativeModel (text_model s)) w2 = Inl e
                 \<or> (\<exists>w3. external (new_generative_model env (trace w2) (text_model s)) (EvGenerativeModel (text_model s)) w2 = Inr w3
                   \<and> (external (from_pretrained env (trace w3) (image_model s)) (EvFromPretrained (image_model s)) w3 = Inl e
                   \<or> (\<exists>w4. external (from_pretrained env (trace w3) (image_model s)) (EvFromPretrained (image_model s)) w3 = Inr w4
                     \<and> (external (from_pretrained env (trace w4) (edit_model s)) (EvFromPretrained (edit_model s)) w4 = Inl e)))))))))))))))"
  by (simp add: launch_def ebind_Inl Let_def)

lemma load_loop_Inl:
  "load_loop w paths acc = Inl e \<longleftrightarrow>
     (\<exists>p rest. dropWhile (\<lambda>q. files w q \<noteq> None) paths = p # rest \<and> e = FileNotFoundError p)"
  by (induction paths arbitrary: acc)
     (auto simp: ebind_Inl pil_open_Inl pil_open_Inr Let_def)

lemma load_images_Inl:
  "load_images env s w = Inl e \<longleftrightarrow>
     launch env s w = Inl e
   \<or> (\<exists>s1 w1. launch env s w = Inr (s1, w1)
        \<and> ((images s1 = None \<and> e = TypeError)
           \<or> (\<exists>paths. images s1 = Some paths \<and> load_loop w1 paths [] = Inl e)))"
proof (cases "launch env s w")
  case (Inl x)
  then show ?thesis
    by (simp add: load_images_def)
next
  case (Inr r)
  obtain s1 w1 where r: "r = (s1, w1)"
    by (cases r)
  show ?thesis
    by (cases "images s1") (auto simp: load_images_def Inr r ebind_Inl)
qed

lemma extract_image_information_Inl:
  "extract_image_information env s w = Inl e \<longleftrightarrow>
     load_images env s w = Inl e
   \<or> (\<exists>imgs s1 w1. load_images env s w = Inr (imgs, s1, w1)
        \<and> (text_handle (pm s1) = Inl e
           \<or> (\<exists>name. text_handle (pm s1) = Inr name
                \<and> generate_content env name
                     (PText image_extraction_prompt # map PImage imgs) w1 = Inl e)))"
  by (simp add: extract_image_information_def ebind_Inl Let_def)

lemma create_text_prompt_Inl:
  "create_text_prompt env s w = Inl e \<longleftrightarrow>
     text_handle (pm s) = Inl e
   \<or> (\<exists>name. text_handle (pm s) = Inr name
        \<and> generate_content env name [PText (text_prompt (fmt (text_v2 s)))] w = Inl e)"
  by (simp add: create_text_prompt_def ebind_Inl Let_def)

lemma identify_lags_Inl:
  "identify_lags env s w = Inl e \<longleftrightarrow>
     text_handle (pm s) = Inl e
   \<or> (\<exists>name. text_handle (pm s) = Inr name
        \<and> (pil_open w temp_img_path = Inl e
           \<or> (\<exists>img. pil_open w temp_img_path = Inr img
                \<and> generate_content env name
                     [PText (lags_prompt (fmt (text_v3 s))), PImage img] w = Inl e)))"
  by (simp add: identify_lags_def ebind_Inl Let_def)

lemma ebind_assoc: "ebind (ebind m g) f = ebind m (\<lambda>x. ebind (g x) f)"
  by (cases m) simp_all

lemma ebind_if: "ebind (if c then m else n) f = (if c then ebind m f else ebind n f)"
  by simp

lemma generate_image_Inl:
  "generate_image env s w = Inl e \<longleftrightarrow>
     image_handle (im s) = Inl e
     \<or> (\<exists>name. image_handle (im s) = Inr name
       \<and> (generate_images env name (image_prompt (fmt (text_v3 s)))
            (map_option aspect_str (aspect_ratio s)) w = Inl e
       \<or> (\<exists>response w1. generate_images env name (image_prompt (fmt (text_v3 s)))
            (map_option aspect_str (aspect_ratio s)) w = Inr (response, w1)
         \<and> ((if path_exists w1 temp_img_path then os_remove env temp_img_path w1 else Inr w1) = Inl e
         \<or> (\<exists>w2. (if path_exists w1 temp_img_path then os_remove env temp_img_path w1 else Inr w1) = Inr w2
           \<and> (response_first (Some response) = Inl e
           \<or> (\<exists>img. response_first (Some response) = Inr img
             \<and> (save_image env img temp_img_path w2 = Inl e))))))))"
  by (cases "aspect_ratio s")
     (simp_all add: generate_image_def truthy_aspect_iff ebind_assoc ebind_Inl ebind_Inr Let_def)

lemma fix_retest_Inl:
  "fix_retest env s w = Inl e \<longleftrightarrow>
     identify_lags env s w = Inl e
     \<or> (\<exists>lags s1 w1. identify_lags env s w = Inr (lags, s1, w1)
       \<and> (image_handle (em s1) = Inl e
       \<or> (\<exists>name. image_handle (em s1) = Inr name
         \<and> (load_from_file w1 temp_img_path = Inl e
         \<or> (\<exists>base_image. load_from_file w1 temp_img_path = Inr base_image
           \<and> (edit_image env name base_image (refix_prompt lags)
            (str ''inpainting-insert'') (str ''background'') w1 = Inl e
           \<or> (\<exists>response w2. edit_image env name base_image (refix_prompt lags)
            (str ''inpainting-insert'') (str ''background'') w1 = Inr (response, w2)
             \<and> (response_first (Some response) = Inl e
             \<or> (\<exists>img. response_first (Some response) = Inr img
               \<and> (save_image env img temp_img_path w2 = Inl e))))))))))"
  by (simp add: fix_retest_def ebind_Inl ebind_Inr Let_def)

lemma fix_image_Inl:
  "fix_image env retest s w = Inl e \<longleftrightarrow>
     identify_lags env s w = Inl e
     \<or> (\<exists>lags s1 w1. identify_lags env s w = Inr (lags, s1, w1)
       \<and> (load_from_file w1 temp_img_path = Inl e
       \<or> (\<exists>base_image. load_from_file w1 temp_img_path = Inr base_image
         \<and> (image_handle (em s1) = Inl e
         \<or> (\<exists>name. image_handle (em s1) = Inr name
           \<and> (edit_image env name base_image (fix_prompt lags)
            (str ''inpainting-insert'') (str ''background'') w1 = Inl e
           \<or> (\<exists>response w2. edit_image env name base_image (fix_prompt lags)
            (str ''inpainting-insert'') (str ''background'') w1 = Inr (response, w2)
             \<and> (response_first (Some response) = Inl e
             \<or> (\<exists>img. response_first (Some response) = Inr img
               \<and> (save_image env img temp_img_path w2 = Inl e
               \<or> (\<exists>w3. save_image env img temp_img_path w2 = Inr w3
                 \<and> ((if retest then fix_retest env (s1\<lparr>img_response_v2 := Some response\<rparr>) (print_line (str ''Image v2 generated!'') w3)
            else Inr (s1\<lparr>img_response_v2 := Some response\<rparr>, print_line (str ''Image v2 generated!'') w3)) = Inl e
                 \<or> (\<exists>s3 w5. (if retest then fix_retest env (s1\<lparr>img_response_v2 := Some response\<rparr>) (print_line (str ''Image v2 generated!'') w3)
            else Inr (s1\<lparr>img_response_v2 := Some response\<rparr>, print_line (str ''Image v2 generated!'') w3)) = Inr (s3, w5)
                   \<and> (response_first (img_response_v2 s3) = Inl e
                   \<or> (\<exists>final. response_first (img_response_v2 s3) = Inr final
                     \<and> (save_image env final (output_img_path env (topic s3)) w5 = Inl e))))))))))))))))"
  by (simp add: fix_image_def ebind_Inl ebind_Inr Let_def)

lemma extract_information_Inl:
  "extract_information env s w = Inl e \<longleftrightarrow>
     launch env s w = Inl e
     \<or> (\<exists>s1 w1. launch env s w = Inr (s1, w1)
       \<and> (text_handle (pm s1) = Inl e
       \<or> (\<exists>name. text_handle (pm s1) = Inr name
         \<and> (generate_content env name [PText (analysis_prompt (topic s1))] w1 = Inl e
         \<or> (\<exists>t0 w2. generate_content env name [PText (analysis_prompt (topic s1))] w1 = Inr (t0, w2)
           \<and> (if truthy_list (images s1)
           then extract_image_information env (s1\<lparr>text_v0 := Some t0\<rparr>) w2 = Inl e
             \<or> (\<exists>info s3 w3. extract_image_information env (s1\<lparr>text_v0 := Some t0\<rparr>) w2 = Inr (info, s3, w3)
               \<and> (text_handle (pm s3) = Inl e
                 \<or> (\<exists>name. text_handle (pm s3) = Inr name
                   \<and> (generate_content env name [PText (consolidation_prompt t0 @ str '' Product insights: '' @ info)] (print_line (str ''Product insights: '' @ info) w3) = Inl e
                   \<or> (\<exists>t1 w4. generate_content env name [PText (consolidation_prompt t0 @ str '' Product insights: '' @ info)] (print_line (str ''Product insights: '' @ info) w3) = Inr (t1, w4)
                     \<and> (text_handle (pm s3) = Inl e
                     \<or> (\<exists>name. text_handle (pm s3) = Inr name
                       \<and> (generate_content env name [PText (scrapper_prompt (py_slice 9 (- 5) t1))] w4 = Inl e))))))))
           else text_handle (pm (s1\<lparr>text_v0 := Some t0\<rparr>)) = Inl e
                 \<or> (\<exists>name. text_handle (pm (s1\<lparr>text_v0 := Some t0\<rparr>)) = Inr name
                   \<and> (generate_content env name [PText (consolidation_prompt t0)] w2 = Inl e
                   \<or> (\<exists>t1 w4. generate_content env name [PText (consolidation_prompt t0)] w2 = Inr (t1, w4)
                     \<and> (text_handle (pm (s1\<lparr>text_v0 := Some t0\<rparr>)) = Inl e
                     \<or> (\<exists>name. text_handle (pm (s1\<lparr>text_v0 := Some t0\<rparr>)) = Inr name
                       \<and> (generate_content env name [PText (scrapper_prompt (py_slice 9 (- 5) t1))] w4 = Inl e))))))))))))"
  by (simp add: extract_information_def ebind_if ebind_assoc ebind_Inl ebind_Inr Let_def fmt_def)

lemma execute_Inl:
  "execute env QC s w = Inl e \<longleftrightarrow>
     extract_information env s w = Inl e
     \<or> (\<exists>s1 w1. extract_information env s w = Inr (s1, w1)
       \<and> (create_text_prompt env s1 w1 = Inl e
       \<or> (\<exists>s2 w2. create_text_prompt env s1 w1 = Inr (s2, w2)
         \<and> (generate_image env s2 w2 = Inl e
         \<or> (\<exists>temp_path s3 w3. generate_image env s2 w2 = Inr (temp_path, s3, w3)
           \<and> (fix_image env QC s3 w3 = Inl e))))))"
  by (simp add: execute_def ebind_Inl)

lemma edit_service_irrelevant_calls:
  "generate_content (env\<lparr>edit_service := f\<rparr>) = generate_content env"
  "generate_images (env\<lparr>edit_service := f\<rparr>) = generate_images env"
  "os_remove (env\<lparr>edit_service := f\<rparr>) = os_remove env"
  "save_image (env\<lparr>edit_service := f\<rparr>) = save_image env"
  by (simp_all add: fun_eq_iff generate_content_def generate_images_def os_remove_def
      save_image_def Let_def split: option.splits cong: if_cong)

lemma edit_service_irrelevant:
  "launch (env\<lparr>edit_service := f\<rparr>) s w = launch env s w"
  "create_text_prompt (env\<lparr>edit_service := f\<rparr>) s w = create_text_prompt env s w"
  "generate_image (env\<lparr>edit_service := f\<rparr>) s w = generate_image env s w"
  by (simp_all add: launch_def create_text_prompt_def generate_image_def
      edit_service_irrelevant_calls cong: if_cong)

lemma edit_service_irrelevant_extract:
  "extract_information (env\<lparr>edit_service := f\<rparr>) s w = extract_information env s w"
  by (simp add: extract_information_def extract_image_information_def load_images_def
      edit_service_irrelevant edit_service_irrelevant_calls cong: if_cong)

lemma text_service_irrelevant:
  "launch (env\<lparr>text_service := f\<rparr>) s w = launch env s w"
  by (simp add: launch_def)


text \<open>
  Claim C8. Every function of the model fails exactly when the first of its steps that
  fails does, and with the error of that step; what comes after the failing step is not
  run. The statement lists them all: \<open>execute\<close> and its four stages, the methods they call,
  and the calls of the services and of the file system, down to the answers of \<open>env\<close>.
  Read from the bottom up, an error of the text, image or edit service, of a file
  operation or of a lookup is the error of the call, of the method around it, of its stage
  and of \<open>execute\<close>. The slice of line 105 is defined on every string and raises nothing.
\<close>

theorem execute_propagates:
  "(execute env QC s w = Inl e \<longleftrightarrow>
        extract_information env s w = Inl e
        \<or> (\<exists>s1 w1. extract_information env s w = Inr (s1, w1)
          \<and> (create_text_prompt env s1 w1 = Inl e
          \<or> (\<exists>s2 w2. create_text_prompt env s1 w1 = Inr (s2, w2)
            \<and> (generate_image env s2 w2 = Inl e
            \<or> (\<exists>temp_path s3 w3. generate_image env s2 w2 = Inr (temp_path, s3, w3)
              \<and> (fix_image env QC s3 w3 = Inl e)))))))
   \<and> (extract_information env s w = Inl e \<longleftrightarrow>
        launch env s w = Inl e
        \<or> (\<exists>s1 w1. launch env s w = Inr (s1, w1)
          \<and> (text_handle (pm s1) = Inl e
          \<or> (\<exists>name. text_handle (pm s1) = Inr name
            \<and> (generate_content env name [PText (analysis_prompt (topic s1))] w1 = Inl e
            \<or> (\<exists>t0 w2. generate_content env name [PText (analysis_prompt (topic s1))] w1 = Inr (t0, w2)
              \<and> (if truthy_list (images s1)
              then extract_image_information env (s1\<lparr>text_v0 := Some t0\<rparr>) w2 = Inl e
                \<or> (\<exists>info s3 w3. extract_image_information env (s1\<lparr>text_v0 := Some t0\<rparr>) w2 = Inr (info, s3, w3)
                  \<and> (text_handle (pm s3) = Inl e
                    \<or> (\<exists>name. text_handle (pm s3) = Inr name
                      \<and> (generate_content env name [PText (consolidation_prompt t0 @ str '' Product insights: '' @ info)] (print_line (str ''Product insights: '' @ info) w3) = Inl e
                      \<or> (\<exists>t1 w4. generate_content env name [PText (consolidation_prompt t0 @ str '' Product insights: '' @ info)] (print_line (str ''Product insights: '' @ info) w3) = Inr (t1, w4)
                        \<and> (text_handle (pm s3) = Inl e
                        \<or> (\<exists>name. text_handle (pm s3) = Inr name
                          \<and> (generate_content env name [PText (scrapper_prompt (py_slice 9 (- 5) t1))] w4 = Inl e))))))))
              else text_handle (pm (s1\<lparr>text_v0 := Some t0\<rparr>)) = Inl e
                    \<or> (\<exists>name. text_handle (pm (s1\<lparr>text_v0 := Some t0\<rparr>)) = Inr name
                      \<and> (generate_content env name [PText (consolidation_prompt t0)] w2 = Inl e
                      \<or> (\<exists>t1 w4. generate_content env name [PText (consolidation_prompt t0)] w2 = Inr (t1, w4)
                        \<and> (text_handle (pm (s1\<lparr>text_v0 := Some t0\<rparr>)) = Inl e
                        \<or> (\<exists>name. text_handle (pm (s1\<lparr>text_v0 := Some t0\<rparr>)) = Inr name
                          \<and> (generate_content env name [PText (scrapper_prompt (py_slice 9 (- 5) t1))] w4 = Inl e)))))))))))))
   \<and> (fix_image env retest s w = Inl e \<longleftrightarrow>
        identify_lags env s w = Inl e
        \<or> (\<exists>lags s1 w1. identify_lags env s w = Inr (lags, s1, w1)
          \<and> (load_from_file w1 temp_img_path = Inl e
          \<or> (\<exists>base_image. load_from_file w1 temp_img_path = Inr base_image
            \<and> (image_handle (em s1) = Inl e
            \<or> (\<exists>name. image_handle (em s1) = Inr name
              \<and> (edit_image env name base_image (fix_prompt lags)
               (str ''inpainting-insert'') (str ''background'') w1 = Inl e
              \<or> (\<exists>response w2. edit_image env name base_image (fix_prompt lags)
               (str ''inpainting-insert'') (str ''background'') w1 = Inr (response, w2)
                \<and> (response_first (Some response) = Inl e
                \<or> (\<exists>img. response_first (Some response) = Inr img
                  \<and> (save_image env img temp_img_path w2 = Inl e
                  \<or> (\<exists>w3. save_image env img temp_img_path w2 = Inr w3
                    \<and> ((if retest then fix_retest env (s1\<lparr>img_response_v2 := Some response\<rparr>) (print_line (str ''Image v2 generated!'') w3)
               else Inr (s1\<lparr>img_response_v2 := Some response\<rparr>, print_line (str ''Image v2 generated!'') w3)) = Inl e
                    \<or> (\<exists>s3 w5. (if retest then fix_retest env (s1\<lparr>img_response_v2 := Some response\<rparr>) (print_line (str ''Image v2 generated!'') w3)
               else Inr (s1\<lparr>img_response_v2 := Some response\<rparr>, print_line (str ''Image v2 generated!'') w3)) = Inr (s3, w5)
                      \<and> (response_first (img_response_v2 s3) = Inl e
                      \<or> (\<exists>final. response_first (img_response_v2 s3) = Inr final
                        \<and> (save_image env final (output_img_path env (topic s3)) w5 = Inl e)))))))))))))))))
   \<and> (generate_content env name parts w = Inl e \<longleftrightarrow> text_service env (trace w) name parts = Inl e)
   \<and> (edit_image env name base prompt edit_mode mask_mode w = Inl e \<longleftrightarrow>
        edit_service env (trace w) name base prompt edit_mode mask_mode = Inl e)
   \<and> (create_text_prompt env s w = Inl e \<longleftrightarrow>
        text_handle (pm s) = Inl e
      \<or> (\<exists>name. text_handle (pm s) = Inr name
           \<and> generate_content env name [PText (text_prompt (fmt (text_v2 s)))] w = Inl e))
   \<and> (generate_image env s w = Inl e \<longleftrightarrow>
        image_handle (im s) = Inl e
        \<or> (\<exists>name. image_handle (im s) = Inr name
          \<and> (generate_images env name (image_prompt (fmt (text_v3 s)))
               (map_option aspect_str (aspect_ratio s)) w = Inl e
          \<or> (\<exists>response w1. generate_images env name (image_prompt (fmt (text_v3 s)))
               (map_option aspect_str (aspect_ratio s)) w = Inr (response, w1)
            \<and> ((if path_exists w1 temp_img_path then os_remove env temp_img_path w1 else Inr w1) = Inl e
            \<or> (\<exists>w2. (if path_exists w1 temp_img_path then os_remove env temp_img_path w1 else Inr w1) = Inr w2
              \<and> (response_first (Some response) = Inl e
              \<or> (\<exists>img. response_first (Some response) = Inr img
                \<and> (save_image env img temp_img_path w2 = Inl e)))))))))
   \<and> (identify_lags env s w = Inl e \<longleftrightarrow>
        text_handle (pm s) = Inl e
      \<or> (\<exists>name. text_handle (pm s) = Inr name
           \<and> (pil_open w temp_img_path = Inl e
              \<or> (\<exists>img. pil_open w temp_img_path = Inr img
                   \<and> generate_content env name
                        [PText (lags_prompt (fmt (text_v3 s))), PImage img] w = Inl e))))
   \<and> (fix_retest env s w = Inl e \<longleftrightarrow>
        identify_lags env s w = Inl e
        \<or> (\<exists>lags s1 w1. identify_lags env s w = Inr (lags, s1, w1)
          \<and> (image_handle (em s1) = Inl e
          \<or> (\<exists>name. image_handle (em s1) = Inr name
            \<and> (load_from_file w1 temp_img_path = Inl e
            \<or> (\<exists>base_image. load_from_file w1 temp_img_path = Inr base_image
              \<and> (edit_image env name base_image (refix_prompt lags)
               (str ''inpainting-insert'') (str ''background'') w1 = Inl e
              \<or> (\<exists>response w2. edit_image env name base_image (refix_prompt lags)
               (str ''inpainting-insert'') (str ''background'') w1 = Inr (response, w2)
                \<and> (response_first (Some response) = Inl e
                \<or> (\<exists>img. response_first (Some response) = Inr img
                  \<and> (save_image env img temp_img_path w2 = Inl e)))))))))))
   \<and> (extract_image_information env s w = Inl e \<longleftrightarrow>
        load_images env s w = Inl e
      \<or> (\<exists>imgs s1 w1. load_images env s w = Inr (imgs, s1, w1)
           \<and> (text_handle (pm s1) = Inl e
              \<or> (\<exists>name. text_handle (pm s1) = Inr name
                   \<and> generate_content env name
                        (PText image_extraction_prompt # map PImage imgs) w1 = Inl e))))
   \<and> (load_images env s w = Inl e \<longleftrightarrow>
        launch env s w = Inl e
      \<or> (\<exists>s1 w1. launch env s w = Inr (s1, w1)
           \<and> ((images s1 = None \<and> e = TypeError)
              \<or> (\<exists>paths. images s1 = Some paths \<and> load_loop w1 paths [] = Inl e))))
   \<and> (load_loop w paths acc = Inl e \<longleftrightarrow>
        (\<exists>p rest. dropWhile (\<lambda>q. files w q \<noteq> None) paths = p # rest \<and> e = FileNotFoundError p))
   \<and> (launch env s w = Inl e \<longleftrightarrow>
        \<not> launch_state s
      \<and> (config_get s (str ''PROJECT_ID'') = Inl e
          \<or> (\<exists>project. config_get s (str ''PROJECT_ID'') = Inr project
            \<and> (config_get s (str ''LOCATION'') = Inl e
            \<or> (\<exists>location. config_get s (str ''LOCATION'') = Inr location
              \<and> (external (vertexai_init env (trace w) project location) (EvVertexInit project location) w = Inl e
              \<or> (\<exists>w1. external (vertexai_init env (trace w) project location) (EvVertexInit project location) w = Inr w1
                \<and> (config_get s (str ''API_KEY'') = Inl e
                \<or> (\<exists>api_key. config_get s (str ''API_KEY'') = Inr api_key
                  \<and> (external (genai_configure env (trace w1) api_key) (EvGenaiConfigure api_key) w1 = Inl e
                  \<or> (\<exists>w2. external (genai_configure env (trace w1) api_key) (EvGenaiConfigure api_key) w1 = Inr w2
                    \<and> (external (new_generative_model env (trace w2) (text_model s)) (EvGenerativeModel (text_model s)) w2 = Inl e
                    \<or> (\<exists>w3. external (new_generative_model env (trace w2) (text_model s)) (EvGenerativeModel (text_model s)) w2 = Inr w3
                      \<and> (external (from_pretrained env (trace w3) (image_model s)) (EvFromPretrained (image_model s)) w3 = Inl e
                      \<or> (\<exists>w4. external (from_pretrained env (trace w3) (image_model s)) (EvFromPretrained (image_model s)) w3 = Inr w4
                        \<and> (external (from_pretrained env (trace w4) (edit_model s)) (EvFromPretrained (edit_model s)) w4 = Inl e))))))))))))))))
   \<and> (generate_images env name prompt ratio w = Inl e \<longleftrightarrow>
        image_service env (trace w) name prompt ratio = Inl e)
   \<and> (save_image env img p w = Inl e \<longleftrightarrow>
        (splitext_ext p = [] \<and> e = ValueError (str ''unknown file extension: ''))
      \<or> (splitext_ext p \<noteq> [] \<and> splitext_ext p \<noteq> str ''.jpg''
           \<and> pil_other env (splitext_ext p) = Some e)
      \<or> (splitext_ext p \<noteq> []
           \<and> (splitext_ext p = str ''.jpg'' \<or> pil_other env (splitext_ext p) = None)
           \<and> fs_fault env (trace w) (EvSave p img) = Some e))
   \<and> (os_remove env p w = Inl e \<longleftrightarrow>
        (files w p = None \<and> e = FileNotFoundError p)
      \<or> (files w p \<noteq> None \<and> fs_fault env (trace w) (EvRemove p) = Some e))
   \<and> (pil_open w p = Inl e \<longleftrightarrow> files w p = None \<and> e = FileNotFoundError p)
   \<and> (load_from_file w p = Inl e \<longleftrightarrow> files w p = None \<and> e = FileNotFoundError p)
   \<and> (response_first r = Inl e \<longleftrightarrow> (r = None \<and> e = AttributeError) \<or> (r = Some [] \<and> e = IndexError))
   \<and> (text_handle h = Inl e \<longleftrightarrow> (\<forall>name. h \<noteq> Some (GenerativeModel name)) \<and> e = AttributeError)
   \<and> (image_handle h = Inl e \<longleftrightarrow>
        (\<forall>name. h \<noteq> Some (ImageGenerationModel name)) \<and> e = AttributeError)
   \<and> (config_get s k = Inl e \<longleftrightarrow> map_of (CONFIGS s) k = None \<and> e = KeyError k)
   \<and> (external ro ev w = Inl e \<longleftrightarrow> ro = Some e)"
  apply (intro conjI)
  apply (rule execute_Inl)
  apply (rule extract_information_Inl)
  apply (rule fix_image_Inl)
  apply (rule generate_content_Inl)
  apply (rule edit_image_Inl)
  apply (rule create_text_prompt_Inl)
  apply (rule generate_image_Inl)
  apply (rule identify_lags_Inl)
  apply (rule fix_retest_Inl)
  apply (rule extract_image_information_Inl)
  apply (rule load_images_Inl)
  apply (rule load_loop_Inl)
  apply (rule launch_Inl)
  apply (rule generate_images_Inl)
  apply (rule save_image_Inl)
  apply (rule os_remove_Inl)
  apply (rule pil_open_Inl)
  apply (rule load_from_file_Inl)
  apply (rule response_first_Inl)
  apply (rule text_handle_Inl)
  apply (rule image_handle_Inl)
  apply (rule config_get_Inl)
  apply (rule external_Inl)
  done

lemma identify_lags_edit_irrelevant:
  "identify_lags (env\<lparr>edit_service := f\<rparr>) s w = identify_lags env s w"
  by (simp add: identify_lags_def generate_content_def)

theorem execute_propagates_witness:
  "execute text_down_env False demo_session demo_world = Inl (ExternalError 503)
   \<and> execute edit_down_env True demo_session demo_world = Inl (ExternalError 500)"
proof
  note c_execute = execute_propagates [THEN conjunct1]
  note c_extract = execute_propagates [THEN conjunct2, THEN conjunct1]
  note c_content = execute_propagates [THEN conjunct2, THEN conjunct2, THEN conjunct2,
      THEN conjunct1]
  let ?s1 = "demo_session\<lparr>pm := Some (GenerativeModel (text_model demo_session)),
                       im := Some (ImageGenerationModel (image_model demo_session)),
                       em := Some (ImageGenerationModel (edit_model demo_session)),
                       launch_state := True\<rparr>"
  let ?w1 = "print_line (str ''Model Launch successful!'')
            (log (EvFromPretrained (edit_model demo_session))
            (log (EvFromPretrained (image_model demo_session))
            (log (EvGenerativeModel (text_model demo_session))
            (log (EvGenaiConfigure (str ''key''))
            (log (EvVertexInit (str ''proj'') (str ''us-central1'')) demo_world)))))"
  have l: "launch text_down_env demo_session demo_world = Inr (?s1, ?w1)"
    by (simp add: text_down_env_def text_service_irrelevant launch_demo)
  have h: "text_handle (pm ?s1) = Inr (text_model demo_session)"
    by (simp add: text_handle_def)
  have "text_service text_down_env (trace ?w1) (text_model demo_session)
           [PText (analysis_prompt (topic ?s1))] = Inl (ExternalError 503)"
    by (simp add: text_down_env_def)
  then have "generate_content text_down_env (text_model demo_session)
           [PText (analysis_prompt (topic ?s1))] ?w1 = Inl (ExternalError 503)"
    by (simp only: c_content)
  with l h have "extract_information text_down_env demo_session demo_world
      = Inl (ExternalError 503)"
    by (simp add: c_extract)
  then show "execute text_down_env False demo_session demo_world = Inl (ExternalError 503)"
    by (simp add: c_execute)
next
  note c_execute = execute_propagates [THEN conjunct1]
  note c_fix = execute_propagates [THEN conjunct2, THEN conjunct2, THEN conjunct1]
  note c_edit = execute_propagates [THEN conjunct2, THEN conjunct2, THEN conjunct2,
      THEN conjunct2, THEN conjunct1]
  from execute_reaches_repair [OF reliable_demo configured_demo(1), of demo_world]
    images_demo(1)
  obtain s1 w1 s2 w2 tp s3 w3 name ename base where
    a: "extract_information demo_env demo_session demo_world = Inr (s1, w1)"
    and b: "create_text_prompt demo_env s1 w1 = Inr (s2, w2)"
    and c: "generate_image demo_env s2 w2 = Inr (tp, s3, w3)"
    and h: "pm s3 = Some (GenerativeModel name)" "em s3 = Some (ImageGenerationModel ename)"
      "files w3 temp_img_path = Some base"
    by auto
  from a b c have reach: "extract_information edit_down_env demo_session demo_world = Inr (s1, w1)"
    "create_text_prompt edit_down_env s1 w1 = Inr (s2, w2)"
    "generate_image edit_down_env s2 w2 = Inr (tp, s3, w3)"
    by (simp_all add: edit_down_env_def edit_service_irrelevant edit_service_irrelevant_extract)
  let ?w4 = "print_line (str ''Lags identified: '' @ fenced_answer)
      (log (EvGenerateContent name
         [PText (lags_prompt (fmt (text_v3 s3))), PImage base] fenced_answer) w3)"
  have lags: "identify_lags edit_down_env s3 w3 = Inr (fenced_answer, s3, ?w4)"
    using h by (simp add: identify_lags_Inr edit_down_env_def demo_env_def)
  have base: "load_from_file ?w4 temp_img_path = Inr base"
    and handle: "image_handle (em s3) = Inr ename"
    using h by (simp_all add: load_from_file_Inr image_handle_Inr)
  have "edit_service edit_down_env (trace ?w4) ename base (fix_prompt fenced_answer)
          (str ''inpainting-insert'') (str ''background'') = Inl (ExternalError 500)"
    by (simp add: edit_down_env_def)
  then have "edit_image edit_down_env ename base (fix_prompt fenced_answer)
          (str ''inpainting-insert'') (str ''background'') ?w4 = Inl (ExternalError 500)"
    by (simp only: c_edit)
  with lags base handle have "fix_image edit_down_env True s3 w3 = Inl (ExternalError 500)"
    by (simp add: c_fix)
  with reach show "execute edit_down_env True demo_session demo_world
      = Inl (ExternalError 500)"
    by (simp add: c_execute)
qed


subsection \<open>Topics that leave an empty name\<close>

lemma fix_image_raises:
  assumes "reliable env" and "pm s = Some (GenerativeModel name)"
    and "em s = Some (ImageGenerationModel ename)" and "files w temp_img_path = Some base"
    and "spec_basename env (topic s) = []"
  shows "fix_image env retest s w = Inl (ValueError (str ''unknown file extension: ''))"
proof -
  from reliable_text [OF assms(1)] obtain lags where
    a: "text_service env (trace w) name
          [PText (lags_prompt (fmt (text_v3 s))), PImage base] = Inr lags"
    by blast
  from reliable_edit [OF assms(1)] obtain img rest where
    b: "edit_service env
          (trace w @ [EvGenerateContent name
             [PText (lags_prompt (fmt (text_v3 s))), PImage base] lags])
          ename base (fix_prompt lags) (str ''inpainting-insert'') (str ''background'')
        = Inr (img # rest)"
    by blast
  show ?thesis
  proof (cases retest)
    case False
    with assms a b show ?thesis
      by (simp add: fix_image_def identify_lags_def Let_def text_handle_def pil_open_def
        generate_content_def image_handle_def load_from_file_def edit_image_def
        response_first_def first_image_def save_image_temp save_image_output external_def reliableD)
  next
    case True
    define S where "S = s\<lparr>img_response_v2 := Some (img # rest)\<rparr>"
    define W where "W = print_line (str ''Image v2 generated!'')
      (log (EvSave temp_img_path img)
        ((log (EvEditImage ename base (fix_prompt lags) (str ''inpainting-insert'')
                 (str ''background'') (img # rest))
           (print_line (str ''Lags identified: '' @ lags)
             (log (EvGenerateContent name
                [PText (lags_prompt (fmt (text_v3 s))), PImage base] lags) w)))
         \<lparr>files := (files w)(temp_img_path \<mapsto> img)\<rparr>))"
    have "pm S = Some (GenerativeModel name)" and "em S = Some (ImageGenerationModel ename)"
      and "files W temp_img_path = Some img"
      using assms by (simp_all add: S_def W_def)
    from fix_retest_returns [OF assms(1) this] obtain s3 w5 where
      again: "fix_retest env S W = Inr (s3, w5)"
      by blast
    from fix_retest_Inr [OF again] have "img_response_v2 s3 = Some (img # rest)"
      and "topic s3 = topic s"
      by (auto simp: S_def)
    with True assms a b again [unfolded S_def W_def] show ?thesis
      by (simp add: fix_image_def identify_lags_def Let_def text_handle_def pil_open_def
        generate_content_def image_handle_def load_from_file_def edit_image_def
        response_first_def first_image_def save_image_temp save_image_output external_def reliableD)
  qed
qed

lemma execute_raises:
  assumes "reliable env" and "configured s"
    and "\<forall>paths. images s = Some paths \<longrightarrow> (\<forall>p \<in> set paths. files w p \<noteq> None)"
    and "spec_basename env (topic s) = []"
  shows "execute env QC s w = Inl (ValueError (str ''unknown file extension: ''))"
proof -
  from execute_reaches_repair [OF assms(1-3)] obtain s1 w1 s2 w2 tp s3 w3 name ename base where
    stages: "extract_information env s w = Inr (s1, w1)"
      "create_text_prompt env s1 w1 = Inr (s2, w2)"
      "generate_image env s2 w2 = Inr (tp, s3, w3)"
    and ready: "pm s3 = Some (GenerativeModel name)" "em s3 = Some (ImageGenerationModel ename)"
      "files w3 temp_img_path = Some base" "spec_basename env (topic s3) = []"
    using assms(4) by auto
  from fix_image_raises [OF assms(1) ready]
  have "fix_image env QC s3 w3 = Inl (ValueError (str ''unknown file extension: ''))" .
  with stages show ?thesis
    by (simp add: execute_Inl)
qed

lemma fix_image_stem:
  assumes "fix_image env retest s w = Inr (p, s', w')"
  shows "spec_basename env (topic s) \<noteq> []"
proof (cases retest)
  case False
  with assms show ?thesis
    apply (simp add: fix_image_def Let_def)
    apply (simp add: ebind_Inr identify_lags_Inr image_handle_Inr load_from_file_Inr
      edit_image_Inr response_first_Inr save_temp_Inr save_output_Inr)
    apply clarsimp
    done
next
  case True
  with assms show ?thesis
    apply (simp add: fix_image_def Let_def)
    apply (simp add: ebind_Inr identify_lags_Inr image_handle_Inr load_from_file_Inr
      edit_image_Inr response_first_Inr save_temp_Inr save_output_Inr)
    apply (elim exE conjE)
    apply (frule fix_retest_Inr)
    apply (elim exE conjE)
    apply clarsimp
    done
qed

lemma execute_stem:
  assumes "execute env QC s w = Inr (p, s', w')"
  shows "spec_basename env (topic s) \<noteq> []"
  using execute_fix_image [OF assms] fix_image_stem by metis

lemma execute_never_returns:
  assumes "spec_basename env (topic s) = []"
  shows "execute env QC s w \<noteq> Inr r"
proof
  assume "execute env QC s w = Inr r"
  then obtain p s' w' where "execute env QC s w = Inr (p, s', w')"
    by (cases r) auto
  from execute_stem [OF this] assms show False
    by simp
qed

text \<open>
  For a topic whose stem is not empty, \<open>execute\<close> returns when no service fails, and the
  path returned is as the specification words it.
\<close>

lemma execute_path_shape:
  assumes "execute env QC s w = Inr (p, s', w')"
  shows "p = str ''images/output/'' @ spec_basename env (topic s) @ str ''.jpg''"
    and "p \<noteq> []"
    and "spec_basename env (topic s) \<noteq> []"
    and "length (spec_basename env (topic s)) \<le> 50"
    and "\<forall>c \<in> set (spec_basename env (topic s)). isalnum env c \<or> c = 95"
proof -
  from execute_fix_image [OF assms] obtain s3 w3 where
    "fix_image env QC s3 w3 = Inr (p, s', w')" and "topic s3 = topic s"
    by blast
  with fix_image_Inr [of env QC s3 w3 p s' w']
  have "p = output_img_path env (topic s)"
    by auto
  then show p: "p = str ''images/output/'' @ spec_basename env (topic s) @ str ''.jpg''"
    by (simp add: output_img_path_spec)
  then show "p \<noteq> []"
    by (simp add: str_def)
  show "spec_basename env (topic s) \<noteq> []"
    by (rule execute_stem [OF assms])
  show "length (spec_basename env (topic s)) \<le> 50"
    by (rule spec_basename_length)
  show "\<forall>c \<in> set (spec_basename env (topic s)). isalnum env c \<or> c = 95"
    using spec_basename_chars by blast
qed

lemma punctuation_stem:
  assumes "\<forall>c \<in> set t. \<not> isalnum env c \<and> c \<noteq> 32"
  shows "spec_basename env t = []"
    and "output_filename env t = str ''.jpg''"
    and "output_img_path env t = str ''images/output/.jpg''"
proof -
  from assms have "[e \<leftarrow> t. isalnum env e \<or> e = 32] = []"
    by (auto simp: filter_empty_conv)
  then show stem: "spec_basename env t = []"
    by (simp add: spec_basename_def)
  then show "output_filename env t = str ''.jpg''"
    by (simp add: output_filename_spec)
  from stem show "output_img_path env t = str ''images/output/.jpg''"
    by (simp add: output_img_path_spec) (simp add: str_def)
qed

lemma save_image_no_extension:
  "save_image env img (str ''images/output/.jpg'') w
     = Inl (ValueError (str ''unknown file extension: ''))"
proof -
  have "spec_basename env [] = []" and "output_img_path env [] = str ''images/output/.jpg''"
    by (simp_all add: punctuation_stem)
  with save_image_output [where t = "[]" and env = env and img = img and w = w]
  show ?thesis
    by simp
qed

lemma blank_stem: "spec_basename env (str ''   '') = []"
  by (simp add: spec_basename_def str_def isalnum_def isspace_def)

lemma blank_facts:
  "configured blank_session" "images blank_session = None" "topic blank_session = str ''   ''"
  by (simp_all add: configured_def blank_session_def new_session_def info_def str_def)

lemma bang_facts:
  "images bang_session = None" "topic bang_session = str ''!!!''"
  by (simp_all add: bang_session_def new_session_def)

text \<open>
  Claim C2. The claim asks that \<open>execute\<close> return an output path for every topic that is
  not empty. The topic of three spaces is not empty; the filter of line 194 keeps its
  spaces and \<open>strip\<close> removes them, so the name is \<open>.jpg\<close> and the path
  \<open>images/output/.jpg\<close> has no extension. With services that never fail, a configured new
  object and no images, every stage before the final save succeeds, the save of line 197
  raises \<open>ValueError\<close>, and \<open>execute\<close> raises it instead of returning a path.
\<close>

theorem blank_topic_execute_raises:
  "topic blank_session = str ''   ''
   \<and> topic blank_session \<noteq> []
   \<and> output_img_path demo_env (topic blank_session) = str ''images/output/.jpg''
   \<and> execute demo_env False blank_session demo_world
       = Inl (ValueError (str ''unknown file extension: ''))
   \<and> execute demo_env True blank_session demo_world
       = Inl (ValueError (str ''unknown file extension: ''))"
proof -
  have stem: "spec_basename demo_env (topic blank_session) = []"
    by (simp add: blank_facts(3) blank_stem)
  have run: "execute demo_env QC blank_session demo_world
       = Inl (ValueError (str ''unknown file extension: ''))" for QC
    using execute_raises [OF reliable_demo blank_facts(1) _ stem, of demo_world QC]
    by (simp add: blank_facts(2))
  have ne: "topic blank_session \<noteq> []"
    by (simp add: blank_facts(3) str_def)
  from stem have "output_img_path demo_env (topic blank_session) = str ''images/output/.jpg''"
    by (simp add: output_img_path_spec) (simp add: str_def)
  with run ne blank_facts(3) show ?thesis
    by simp
qed

text \<open>
  Claim C9. For the topic \<open>!!!\<close> the filter of line 194 leaves nothing: the name is
  \<open>.jpg\<close> and the output path is \<open>images/output/.jpg\<close>, as the claim says. The claim
  goes on to say that the final image is written there. A path whose last component is
  a dot followed by letters has no extension, so the save of line 197 raises
  \<open>ValueError\<close> before any file is touched, for every image and in every state; the
  run, with the quality check or without it, ends with that error and never returns.
\<close>

theorem punctuation_topic_not_saved:
  "topic bang_session = str ''!!!''
   \<and> output_filename demo_env (topic bang_session) = str ''.jpg''
   \<and> output_img_path demo_env (topic bang_session) = str ''images/output/.jpg''
   \<and> save_image env img (output_img_path demo_env (topic bang_session)) w
       = Inl (ValueError (str ''unknown file extension: ''))
   \<and> execute demo_env False bang_session demo_world
       = Inl (ValueError (str ''unknown file extension: ''))
   \<and> execute demo_env True bang_session demo_world
       = Inl (ValueError (str ''unknown file extension: ''))"
proof -
  have chars: "\<forall>c \<in> set (topic bang_session). \<not> isalnum demo_env c \<and> c \<noteq> 32"
    by (simp add: bang_facts(2) str_def isalnum_def)
  note stem = punctuation_stem [OF chars]
  have run: "execute demo_env QC bang_session demo_world
       = Inl (ValueError (str ''unknown file extension: ''))" for QC
    using execute_raises [OF reliable_demo configured_demo(2) _ stem(1), of demo_world QC]
    by (simp add: bang_facts(1))
  from stem(2,3) run bang_facts(2) show ?thesis
    by (simp add: save_image_no_extension)
qed

end
